theory Spec2Isabelle
  imports Main "HOL-Library.Word"
begin

section \<open>Strings and formatting\<close>

text \<open>
  Go strings and byte slices are byte sequences; they are modelled as \<open>string\<close>
  (lists of 8-bit characters). The helpers below follow the Go standard library
  functions that \<^verbatim>\<open>internal/db/supabase.go\<close> calls.
\<close>

text \<open>\<^verbatim>\<open>strings.HasSuffix(s, suffix)\<close>:
  \<^verbatim>\<open>len(s) >= len(suffix) && s[len(s)-len(suffix):] == suffix\<close>.\<close>

definition HasSuffix :: "string \<Rightarrow> string \<Rightarrow> bool" where
  "HasSuffix s suffix =
     (length s \<ge> length suffix \<and> drop (length s - length suffix) s = suffix)"

text \<open>\<^verbatim>\<open>strings.HasPrefix(s, prefix)\<close>.\<close>

definition HasPrefix :: "string \<Rightarrow> string \<Rightarrow> bool" where
  "HasPrefix s prefix = (length s \<ge> length prefix \<and> take (length prefix) s = prefix)"

text \<open>\<^verbatim>\<open>strings.Contains(s, substr)\<close>: some position of \<open>s\<close> starts
  with \<open>substr\<close>.\<close>

fun Contains :: "string \<Rightarrow> string \<Rightarrow> bool" where
  "Contains [] substr = (substr = [])"
| "Contains (c # cs) substr = (HasPrefix (c # cs) substr \<or> Contains cs substr)"

text \<open>The verb \<^verbatim>\<open>%d\<close> of \<^verbatim>\<open>fmt\<close> on an \<^verbatim>\<open>int\<close>: the decimal
  digits, with a leading minus sign for a negative number.\<close>

definition digit_char :: "nat \<Rightarrow> char" where
  "digit_char d = ''0123456789'' ! d"

fun decimal :: "nat \<Rightarrow> string" where
  "decimal n = (if n < 10 then [digit_char n] else decimal (n div 10) @ [digit_char (n mod 10)])"

declare decimal.simps [simp del]

definition fmt_d :: "int \<Rightarrow> string" where
  "fmt_d i = (if i < 0 then CHR ''-'' # decimal (nat (- i)) else decimal (nat i))"

section \<open>Errors and results\<close>

text \<open>The kinds of error that \<^verbatim>\<open>json.Unmarshal\<close> returns for the targets used
  here: a syntax error, a JSON value that does not fit the field's type, and the error of
  a field's own text decoder (\<^verbatim>\<open>UUID.UnmarshalText\<close>).\<close>

datatype json_error = SyntaxError | UnmarshalTypeError | TextUnmarshalError

text \<open>
  Go \<^verbatim>\<open>error\<close> values: the transport error with its text, returned as it is; an
  error made by \<^verbatim>\<open>fmt.Errorf\<close> with its rendered message; an error made by
  \<^verbatim>\<open>fmt.Errorf\<close> with the verb \<^verbatim>\<open>%w\<close>, given by the text before the verb and
  the error wrapped; and an error of the JSON decoder.
\<close>

datatype error = Sender string | Errorf string | Wrap string error | Json json_error

text \<open>A Go result pair \<^verbatim>\<open>(value, err)\<close>: \<open>None\<close> is \<^verbatim>\<open>nil\<close> on either side.\<close>

type_synonym 'v result = "'v option \<times> error option"

section \<open>The client and its construction\<close>

text \<open>
  The process environment read by \<^verbatim>\<open>os.Getenv\<close>: a variable that is not set reads
  as the empty string.
\<close>

type_synonym environment = "string \<rightharpoonup> string"

definition Getenv :: "environment \<Rightarrow> string \<Rightarrow> string" where
  "Getenv env key = (case env key of None \<Rightarrow> [] | Some v \<Rightarrow> v)"

text \<open>
  The configuration of the \<^verbatim>\<open>resty.Client\<close> that the constructor builds: the base
  URL, the timeout in seconds and the default headers, in the order they are set.
\<close>

record RestyClient =
  BaseURL :: string
  Timeout :: nat
  Header :: "(string \<times> string) list"

record SupabaseClient =
  URL :: string
  APIKey :: string
  Client :: RestyClient

text \<open>
  \<^verbatim>\<open>NewSupabaseClient(useServiceKey ...bool)\<close>. The variadic argument is the list of
  the booleans passed. The result is the pointer returned (\<open>None\<close> is
  \<^verbatim>\<open>nil\<close>) and the lines printed on standard output.
\<close>

definition NewSupabaseClient ::
  "environment \<Rightarrow> bool list \<Rightarrow> SupabaseClient option \<times> string list" where
  "NewSupabaseClient env useServiceKey =
     (let url = Getenv env ''SUPABASE_URL'';
          apiKey = (if length useServiceKey > 0 \<and> hd useServiceKey
                    then Getenv env ''SUPABASE_SERVICE_KEY''
                    else Getenv env ''SUPABASE_ANON'')
      in if url = [] \<or> apiKey = []
         then (None,
               [''ERROR: Supabase environment variables not set. SUPABASE_URL and SUPABASE_ANON or SUPABASE_SERVICE_KEY are required.''])
         else (Some \<lparr>URL = url, APIKey = apiKey,
                     Client = \<lparr>BaseURL = url, Timeout = 10,
                       Header = [(''Content-Type'', ''application/json''),
                                 (''Accept'', ''application/json''),
                                 (''apikey'', apiKey),
                                 (''Authorization'', ''Bearer '' @ apiKey),
                                 (''Prefer'', ''return=representation'')]\<rparr>\<rparr>,
               []))"

text \<open>
  The credential tier of the spec, the tier that the variadic argument stands for (no
  argument is the default, the anonymous tier; only the first argument is read) and the
  environment variable that holds the key of a tier.
\<close>

datatype tier = Anonymous | Privileged

definition tier_of :: "bool list \<Rightarrow> tier" where
  "tier_of useServiceKey =
     (case useServiceKey of [] \<Rightarrow> Anonymous | b # _ \<Rightarrow> if b then Privileged else Anonymous)"

definition tier_key :: "environment \<Rightarrow> tier \<Rightarrow> string" where
  "tier_key env t =
     (case t of Anonymous \<Rightarrow> Getenv env ''SUPABASE_ANON''
              | Privileged \<Rightarrow> Getenv env ''SUPABASE_SERVICE_KEY'')"

subsection \<open>The process-wide default instance\<close>

text \<open>
  The package variables \<^verbatim>\<open>globalClient\<close> and \<^verbatim>\<open>globalClientOnce\<close>, with what
  the accessors read and write besides: the process environment, the heap of constructed
  clients (a pointer is an index into it, so that two pointers are equal exactly when
  they denote the same instance) and standard output. \<open>constructions\<close> is a ghost
  counter of the calls of \<^verbatim>\<open>NewSupabaseClient\<close> made through the accessors.
  The read/write lock \<^verbatim>\<open>globalClientMu\<close> has no effect on a sequential run and is
  not part of the state.
\<close>

record Process =
  environ :: environment
  globalClient :: "nat option"
  globalClientOnce :: bool
  heap :: "SupabaseClient list"
  stdout :: "string list"
  constructions :: nat

definition initial :: "environment \<Rightarrow> Process" where
  "initial env = \<lparr>environ = env, globalClient = None, globalClientOnce = False,
                  heap = [], stdout = [], constructions = 0\<rparr>"

text \<open>A call of \<^verbatim>\<open>NewSupabaseClient\<close> in the process: the instance, when there
  is one, is allocated at a fresh address.\<close>

definition new_client :: "bool list \<Rightarrow> Process \<Rightarrow> nat option \<times> Process" where
  "new_client useServiceKey p =
     (case NewSupabaseClient (environ p) useServiceKey of
        (r, out) \<Rightarrow>
          (let p' = p\<lparr>stdout := stdout p @ out, constructions := Suc (constructions p)\<rparr>
           in case r of
                None \<Rightarrow> (None, p')
              | Some c \<Rightarrow> (Some (length (heap p')), p'\<lparr>heap := heap p' @ [c]\<rparr>)))"

text \<open>
  \<^verbatim>\<open>InitGlobalClient(useServiceKey ...bool)\<close>. \<^verbatim>\<open>globalClientOnce.Do\<close> runs its
  function on the first call only. The result is the pair returned and the process
  after the call.
\<close>

definition InitGlobalClient :: "bool list \<Rightarrow> Process \<Rightarrow> nat result \<times> Process" where
  "InitGlobalClient useServiceKey p =
     (let p1 = (if globalClientOnce p then p
                else case new_client useServiceKey p of
                       (r, p') \<Rightarrow> p'\<lparr>globalClient := r, globalClientOnce := True\<rparr>)
      in if globalClient p1 = None
         then ((None, Some (Errorf ''failed to initialize global Supabase client'')), p1)
         else ((globalClient p1, None), p1))"

text \<open>
  \<^verbatim>\<open>GetGlobalClient()\<close>: the check under the read lock, then the check and the
  construction under the write lock.
\<close>

definition GetGlobalClient :: "Process \<Rightarrow> nat option \<times> Process" where
  "GetGlobalClient p =
     (if globalClient p \<noteq> None then (globalClient p, p)
      else let p1 = (if globalClient p = None
                     then case new_client [] p of (r, p') \<Rightarrow> p'\<lparr>globalClient := r\<rparr>
                     else p)
           in (globalClient p1, p1))"

text \<open>A sequence of \<open>n\<close> calls of \<^verbatim>\<open>GetGlobalClient\<close>, one after the other, with
  the pointers they return.\<close>

fun GetGlobalClient_calls :: "nat \<Rightarrow> Process \<Rightarrow> nat option list \<times> Process" where
  "GetGlobalClient_calls 0 p = ([], p)"
| "GetGlobalClient_calls (Suc n) p =
     (case GetGlobalClient p of
        (r, p') \<Rightarrow> (case GetGlobalClient_calls n p' of (rs, p'') \<Rightarrow> (r # rs, p'')))"

section \<open>Requests, responses and errors\<close>

text \<open>A \<^verbatim>\<open>uuid.UUID\<close> is an array of 16 bytes, here a 128-bit word with the first
  byte of the array in the most significant position. Its zero value is \<open>0\<close>.\<close>

type_synonym UUID = "128 word"

definition hex_char :: "nat \<Rightarrow> char" where
  "hex_char d = ''0123456789abcdef'' ! d"

definition hex32 :: "UUID \<Rightarrow> string" where
  "hex32 u = map (\<lambda>i. hex_char (unat (take_bit 4 (drop_bit (4 * (31 - i)) u)))) [0..<32]"

text \<open>\<^verbatim>\<open>UUID.String()\<close>, which the verb \<^verbatim>\<open>%s\<close> calls: the form
  \<^verbatim>\<open>xxxxxxxx-xxxx-xxxx-xxxx-xxxxxxxxxxxx\<close>.\<close>

definition UUID_String :: "UUID \<Rightarrow> string" where
  "UUID_String u =
     (let h = hex32 u
      in take 8 h @ ''-'' @ take 4 (drop 8 h) @ ''-'' @ take 4 (drop 12 h) @ ''-'' @
         take 4 (drop 16 h) @ ''-'' @ drop 20 h)"

record Response =
  StatusCode :: int
  Body :: string

text \<open>The body set on a request: none, a value the sender serialises (\<^verbatim>\<open>any\<close>),
  raw bytes, or a \<^verbatim>\<open>map[string]string\<close> given by its entries.\<close>

datatype 'a payload = NoBody | Data 'a | Bytes string | Fields "(string \<times> string) list"

record 'a Request =
  Method :: string
  Url :: string
  Payload :: "'a payload"

text \<open>
  The HTTP sender (\<^verbatim>\<open>resty\<close> and the remote service behind it) is outside the
  repository: it is a parameter of every operation, a function from the configured
  client and the request to either the text of a transport error or the response.
\<close>

type_synonym 'a sender = "RestyClient \<Rightarrow> 'a Request \<Rightarrow> string + Response"

text \<open>
  Modelled from the spec: \<^verbatim>\<open>lib.User\<close> of package \<^verbatim>\<open>greenvue/lib\<close>, which is
  not among the sources; the spec gives it as the identity record of an ID and an
  email. \<^verbatim>\<open>lib.AuthResponse\<close> is opaque and stays a type parameter.
\<close>

record User =
  ID :: UUID
  Email :: string

text \<open>The anonymous structs that \<^verbatim>\<open>SignUp\<close> and \<^verbatim>\<open>Login\<close> decode into.\<close>

record userResp =
  resp_ID :: UUID
  resp_Email :: string

record errorResp =
  ErrorCode :: string
  Code :: int
  Message :: string

text \<open>
  \<^verbatim>\<open>json.Unmarshal(body, &target)\<close> is a parameter too, one function for each
  target type, from the body to the decoder's error or the decoded value.
\<close>

type_synonym 't unmarshal = "string \<Rightarrow> json_error + 't"

section \<open>The operations\<close>

definition GET :: "'a sender \<Rightarrow> SupabaseClient \<Rightarrow> string \<Rightarrow> string \<Rightarrow> string result" where
  "GET send s table query =
     (let url = URL s @ ''/rest/v1/'' @ table @ ''?'' @ query
      in case send (Client s) \<lparr>Method = ''GET'', Url = url, Payload = NoBody\<rparr> of
           Inl err \<Rightarrow> (None, Some (Sender err))
         | Inr resp \<Rightarrow>
             (let body = Body resp
              in if StatusCode resp < 200 \<or> StatusCode resp \<ge> 300
                 then (None, Some (Errorf (''supabase error: status '' @
                         fmt_d (StatusCode resp) @ '' - '' @ body)))
                 else (Some body, None)))"

text \<open>\<^verbatim>\<open>POST\<close> prints on a transport error: the second component is the lines
  printed.\<close>

definition POST ::
  "'a sender \<Rightarrow> SupabaseClient \<Rightarrow> string \<Rightarrow> 'a \<Rightarrow> string result \<times> string list" where
  "POST send s table data =
     (let url = URL s @ ''/rest/v1/'' @ table @ ''?select=*''
      in case send (Client s) \<lparr>Method = ''POST'', Url = url, Payload = Data data\<rparr> of
           Inl err \<Rightarrow> ((None, Some (Sender err)), [''Error sending request: '' @ err])
         | Inr resp \<Rightarrow>
             (let body = Body resp
              in if length body = 0 then ((Some ''{}'', None), [])
                 else if StatusCode resp \<noteq> 201
                 then ((None, Some (Errorf (''supabase error: '' @ body))), [])
                 else ((Some body, None), [])))"

definition PATCH ::
  "'a sender \<Rightarrow> SupabaseClient \<Rightarrow> string \<Rightarrow> UUID \<Rightarrow> 'a \<Rightarrow> string result" where
  "PATCH send s table id' data =
     (let url = URL s @ ''/rest/v1/'' @ table @ ''?id=eq.'' @ UUID_String id'
      in case send (Client s) \<lparr>Method = ''PATCH'', Url = url, Payload = Data data\<rparr> of
           Inl err \<Rightarrow> (None, Some (Sender err))
         | Inr resp \<Rightarrow>
             (let respBody = Body resp
              in if StatusCode resp < 200 \<or> StatusCode resp \<ge> 300
                 then (None, Some (Errorf (''supabase PATCH error ('' @
                         fmt_d (StatusCode resp) @ ''): '' @ respBody)))
                 else (Some respBody, None)))"

definition DELETE :: "'a sender \<Rightarrow> SupabaseClient \<Rightarrow> string \<Rightarrow> string \<Rightarrow> string result" where
  "DELETE send s table conditions =
     (let url = URL s @ ''/rest/v1/'' @ table @ ''?'' @ conditions
      in case send (Client s) \<lparr>Method = ''DELETE'', Url = url, Payload = NoBody\<rparr> of
           Inl err \<Rightarrow> (None, Some (Wrap ''failed to execute DELETE request: '' (Sender err)))
         | Inr resp \<Rightarrow>
             (let respBody = Body resp
              in if StatusCode resp < 200 \<or> StatusCode resp \<ge> 300
                 then (None, Some (Errorf (''DELETE operation failed (status '' @
                         fmt_d (StatusCode resp) @ ''): '' @ respBody)))
                 else (Some respBody, None)))"

text \<open>The content type that \<^verbatim>\<open>UploadImage\<close> infers from the file name
  (the assignments to \<^verbatim>\<open>contentType\<close>).\<close>

definition contentType :: "string \<Rightarrow> string" where
  "contentType filename =
     (if HasSuffix filename ''.png'' then ''image/png''
      else if HasSuffix filename ''.webp'' then ''image/webp''
      else ''image/jpeg'')"

text \<open>\<^verbatim>\<open>UploadImage\<close>, with the lines it prints. The inferred content type is
  printed; the request is sent with the client's default headers.\<close>

definition UploadImage ::
  "'a sender \<Rightarrow> SupabaseClient \<Rightarrow> string \<Rightarrow> string \<Rightarrow> string \<Rightarrow> string result \<times> string list" where
  "UploadImage send s filename bucket image' =
     (let url = URL s @ ''/storage/v1/object/'' @ bucket @ ''/'' @ filename;
          out = [''Uploading to URL: '' @ url,
                 ''Using content type: '' @ contentType filename]
      in case send (Client s) \<lparr>Method = ''POST'', Url = url, Payload = Bytes image'\<rparr> of
           Inl err \<Rightarrow> ((None, Some (Sender err)), out @ [''Error sending request: '' @ err])
         | Inr resp \<Rightarrow>
             (let body = Body resp;
                  out' = out @ [''Status code: '' @ fmt_d (StatusCode resp)]
              in if StatusCode resp \<ge> 400
                 then ((None, Some (Errorf (''supabase storage error ('' @
                          fmt_d (StatusCode resp) @ ''): '' @ body))),
                       out' @ [''Error response: '' @ body])
                 else ((Some body, None), out')))"

definition SignUp ::
  "'a sender \<Rightarrow> userResp unmarshal \<Rightarrow> SupabaseClient \<Rightarrow> string \<Rightarrow> string \<Rightarrow> User result" where
  "SignUp send unmarshal s email password =
     (let url = URL s @ ''/auth/v1/signup'';
          payload = Fields [(''email'', email), (''password'', password)]
      in case send (Client s) \<lparr>Method = ''POST'', Url = url, Payload = payload\<rparr> of
           Inl err \<Rightarrow> (None, Some (Wrap ''failed to send request: '' (Sender err)))
         | Inr resp \<Rightarrow>
             (let body = Body resp
              in if StatusCode resp \<noteq> 200 \<and> StatusCode resp \<noteq> 201
                 then (None, Some (Errorf (''failed to sign up user: '' @ body)))
                 else case unmarshal body of
                        Inl err \<Rightarrow> (None, Some (Wrap ''failed to parse response: '' (Json err)))
                      | Inr userResp \<Rightarrow>
                          if resp_ID userResp = 0
                          then (None, Some (Errorf ''user ID missing in response''))
                          else (Some \<lparr>ID = resp_ID userResp, Email = resp_Email userResp\<rparr>,
                                None)))"

definition Login ::
  "'a sender \<Rightarrow> errorResp unmarshal \<Rightarrow> 'auth unmarshal \<Rightarrow> SupabaseClient \<Rightarrow>
     string \<Rightarrow> string \<Rightarrow> 'auth result" where
  "Login send unmarshal_error unmarshal_auth s email password =
     (let url = URL s @ ''/auth/v1/token?grant_type=password'';
          payload = Fields [(''email'', email), (''password'', password)]
      in case send (Client s) \<lparr>Method = ''POST'', Url = url, Payload = payload\<rparr> of
           Inl err \<Rightarrow> (None, Some (Wrap ''failed to send request: '' (Sender err)))
         | Inr resp \<Rightarrow>
             (let body = Body resp
              in if Contains body ''error_code''
                 then (case unmarshal_error body of
                         Inl err \<Rightarrow>
                           (None, Some (Wrap ''failed to parse error response: '' (Json err)))
                       | Inr errorResp \<Rightarrow>
                           if ErrorCode errorResp = ''invalid_credentials''
                           then (None, Some (Errorf ''invalid_credentials''))
                           else if ErrorCode errorResp = ''email_not_confirmed''
                           then (None, Some (Errorf ''email_not_confirmed''))
                           else if ErrorCode errorResp = ''user_not_found''
                           then (None, Some (Errorf ''user_not_found''))
                           else (None, Some (Errorf (''login_failed: '' @ Message errorResp))))
                 else if StatusCode resp \<noteq> 200
                 then (None, Some (Errorf (''login_failed: '' @ body)))
                 else case unmarshal_auth body of
                        Inl err \<Rightarrow> (None, Some (Wrap ''failed to parse response: '' (Json err)))
                      | Inr authResp \<Rightarrow> (Some authResp, None)))"

definition UpdateUser ::
  "'a sender \<Rightarrow> User unmarshal \<Rightarrow> SupabaseClient \<Rightarrow> UUID \<Rightarrow> 'a \<Rightarrow> User result" where
  "UpdateUser send unmarshal s id' data =
     (let url = URL s @ ''/auth/v1/admin/users/'' @ UUID_String id'
      in case send (Client s) \<lparr>Method = ''PUT'', Url = url, Payload = Data data\<rparr> of
           Inl err \<Rightarrow> (None, Some (Wrap ''failed to send request: '' (Sender err)))
         | Inr resp \<Rightarrow>
             (let body = Body resp
              in if StatusCode resp \<noteq> 200
                 then (None, Some (Errorf (''update user failed: '' @ body)))
                 else case unmarshal body of
                        Inl err \<Rightarrow> (None, Some (Wrap ''failed to parse response: '' (Json err)))
                      | Inr user \<Rightarrow> (Some user, None)))"

section \<open>A reference model of the JSON decoder\<close>

text \<open>
  The theorems below hold for every decoder. For the evaluation of the operations on
  concrete response bodies, this section models \<^verbatim>\<open>json.Unmarshal\<close> of
  \<^verbatim>\<open>encoding/json\<close> on the two struct targets declared in the source, as the Go
  documentation describes it: the text is checked against the JSON grammar first; a
  key is matched with a field by the field's name without regard to case; \<^verbatim>\<open>null\<close>
  leaves a field unchanged; a value that does not fit a field is reported as a type error
  after the remaining members have been stored. \<^verbatim>\<open>int\<close> is taken to be 64 bits wide.
\<close>

datatype json = JNull | JBool bool | JNumber string | JString string
  | JArray "json list" | JObject "(string \<times> json) list"

definition quote :: char where "quote = CHR 0x22"
definition backslash :: char where "backslash = CHR 0x5C"

definition byte :: "char \<Rightarrow> int" where
  "byte c = of_char c"

definition is_space :: "char \<Rightarrow> bool" where
  "is_space c = (c = CHR '' '' \<or> c = CHR 0x09 \<or> c = CHR 0x0D \<or> c = CHR 0x0A)"

definition is_digit :: "char \<Rightarrow> bool" where
  "is_digit c = (48 \<le> byte c \<and> byte c \<le> 57)"

definition hex_value :: "char \<Rightarrow> int option" where
  "hex_value c =
     (let b = byte c
      in if 48 \<le> b \<and> b \<le> 57 then Some (b - 48)
         else if 97 \<le> b \<and> b \<le> 102 then Some (b - 87)
         else if 65 \<le> b \<and> b \<le> 70 then Some (b - 55)
         else None)"

text \<open>\<^verbatim>\<open>getu4\<close>: the code unit of an escape \<^verbatim>\<open>\uXXXX\<close> at the head of the text.\<close>

definition getu4 :: "string \<Rightarrow> int option" where
  "getu4 s =
     (case s of
        b # u # h1 # h2 # h3 # h4 # _ \<Rightarrow>
          if b = backslash \<and> u = CHR ''u''
          then (case (hex_value h1, hex_value h2, hex_value h3, hex_value h4) of
                  (Some a, Some b, Some c, Some d) \<Rightarrow> Some (((a * 16 + b) * 16 + c) * 16 + d)
                | _ \<Rightarrow> None)
          else None
      | _ \<Rightarrow> None)"

text \<open>\<^verbatim>\<open>utf8.AppendRune\<close>: the UTF-8 encoding of a code point, the encoding of
  U+FFFD for a surrogate or a value out of range.\<close>

definition replacement :: string where
  "replacement = [char_of (239::int), char_of (191::int), char_of (189::int)]"

definition utf8_encode :: "int \<Rightarrow> string" where
  "utf8_encode r =
     (if r < 128 then [char_of r]
      else if r < 2048 then [char_of (192 + r div 64), char_of (128 + r mod 64)]
      else if (55296 \<le> r \<and> r < 57344) \<or> r > 1114111 then replacement
      else if r < 65536
      then [char_of (224 + r div 4096), char_of (128 + r div 64 mod 64), char_of (128 + r mod 64)]
      else [char_of (240 + r div 262144), char_of (128 + r div 4096 mod 64),
            char_of (128 + r div 64 mod 64), char_of (128 + r mod 64)])"

text \<open>\<^verbatim>\<open>utf8.DecodeRune\<close>, as far as the decoder needs it: the number of bytes of the
  well-formed encoding at the head of the text, \<open>0\<close> when there is none.\<close>

definition cont :: "int \<Rightarrow> int \<Rightarrow> char \<Rightarrow> bool" where
  "cont lo hi c = (lo \<le> byte c \<and> byte c \<le> hi)"

definition utf8_size :: "string \<Rightarrow> nat" where
  "utf8_size s =
     (case s of
        [] \<Rightarrow> 0
      | c # cs \<Rightarrow>
          (let b = byte c
           in if 194 \<le> b \<and> b \<le> 223
              then (case cs of c1 # _ \<Rightarrow> if cont 128 191 c1 then 2 else 0 | _ \<Rightarrow> 0)
              else if 224 \<le> b \<and> b \<le> 239
              then (case cs of
                      c1 # c2 # _ \<Rightarrow>
                        if cont (if b = 224 then 160 else 128) (if b = 237 then 159 else 191) c1
                           \<and> cont 128 191 c2
                        then 3 else 0
                    | _ \<Rightarrow> 0)
              else if 240 \<le> b \<and> b \<le> 244
              then (case cs of
                      c1 # c2 # c3 # _ \<Rightarrow>
                        if cont (if b = 240 then 144 else 128) (if b = 244 then 143 else 191) c1
                           \<and> cont 128 191 c2 \<and> cont 128 191 c3
                        then 4 else 0
                    | _ \<Rightarrow> 0)
              else 0))"

text \<open>The escapes of one character that the scanner accepts.\<close>

definition escape :: "char \<Rightarrow> char option" where
  "escape e =
     (if e = quote \<or> e = backslash \<or> e = CHR ''/'' then Some e
      else if e = CHR ''b'' then Some (CHR 0x08)
      else if e = CHR ''f'' then Some (CHR 0x0C)
      else if e = CHR ''n'' then Some (CHR 0x0A)
      else if e = CHR ''r'' then Some (CHR 0x0D)
      else if e = CHR ''t'' then Some (CHR 0x09)
      else None)"

text \<open>
  A string literal, read from the character after the opening quote: the string it
  denotes (\<^verbatim>\<open>unquote\<close>) and the number of bytes read, the closing quote included.
\<close>

definition more :: "string \<Rightarrow> nat \<Rightarrow> (string \<times> nat) option \<Rightarrow> (string \<times> nat) option" where
  "more bs k r = (case r of None \<Rightarrow> None | Some (d, n) \<Rightarrow> Some (bs @ d, n + k))"

fun string_literal :: "string \<Rightarrow> (string \<times> nat) option" where
  "string_literal [] = None"
| "string_literal (c # cs) =
     (if c = quote then Some ([], 1)
      else if c = backslash
      then (case cs of
              [] \<Rightarrow> None
            | e # cs' \<Rightarrow>
                if e = CHR ''u''
                then (case getu4 (c # cs) of
                        None \<Rightarrow> None
                      | Some rr \<Rightarrow>
                          if 55296 \<le> rr \<and> rr < 57344
                          then (case getu4 (drop 5 cs) of
                                  Some rr1 \<Rightarrow>
                                    if rr < 56320 \<and> 56320 \<le> rr1 \<and> rr1 < 57344
                                    then more (utf8_encode ((rr - 55296) * 1024 + (rr1 - 56320) + 65536))
                                           12 (string_literal (drop 11 cs))
                                    else more replacement 6 (string_literal (drop 5 cs))
                                | None \<Rightarrow> more replacement 6 (string_literal (drop 5 cs)))
                          else more (utf8_encode rr) 6 (string_literal (drop 5 cs)))
                else (case escape e of
                        None \<Rightarrow> None
                      | Some b \<Rightarrow> more [b] 2 (string_literal cs')))
      else if byte c < 32 then None
      else if byte c < 128 then more [c] 1 (string_literal cs)
      else if utf8_size (c # cs) = 0 then more replacement 1 (string_literal cs)
      else more (take (utf8_size (c # cs)) (c # cs)) (utf8_size (c # cs))
             (string_literal (drop (utf8_size (c # cs) - 1) cs)))"

text \<open>The length of the number literal at the head of the text.\<close>

definition digits_len :: "string \<Rightarrow> nat" where
  "digits_len s = length (takeWhile is_digit s)"

definition number_len :: "string \<Rightarrow> nat option" where
  "number_len s =
     (let sign = (if HasPrefix s ''-'' then 1 else 0);
          s1 = drop sign s;
          int_len = (if HasPrefix s1 ''0'' then 1 else digits_len s1);
          s2 = drop int_len s1;
          frac_digits = digits_len (drop 1 s2);
          frac_len = (if HasPrefix s2 ''.'' then 1 + frac_digits else 0);
          s3 = drop frac_len s2;
          has_exp = (HasPrefix s3 ''e'' \<or> HasPrefix s3 ''E'');
          exp_sign = (if HasPrefix (drop 1 s3) ''+'' \<or> HasPrefix (drop 1 s3) ''-'' then 1 else 0);
          exp_digits = digits_len (drop (1 + exp_sign) s3);
          exp_len = (if has_exp then 1 + exp_sign + exp_digits else 0)
      in if int_len = 0 \<or> (HasPrefix s2 ''.'' \<and> frac_digits = 0) \<or> (has_exp \<and> exp_digits = 0)
         then None
         else Some (sign + int_len + frac_len + exp_len))"

datatype token = LBrace | RBrace | LBracket | RBracket | Comma | Colon | Literal json

definition cons_token :: "token \<Rightarrow> token list option \<Rightarrow> token list option" where
  "cons_token t r = map_option ((#) t) r"

fun tokens :: "string \<Rightarrow> token list option" where
  "tokens [] = Some []"
| "tokens (c # cs) =
     (if is_space c then tokens cs
      else if c = CHR ''{'' then cons_token LBrace (tokens cs)
      else if c = CHR ''}'' then cons_token RBrace (tokens cs)
      else if c = CHR ''['' then cons_token LBracket (tokens cs)
      else if c = CHR '']'' then cons_token RBracket (tokens cs)
      else if c = CHR '','' then cons_token Comma (tokens cs)
      else if c = CHR '':'' then cons_token Colon (tokens cs)
      else if c = quote
      then (case string_literal cs of
              None \<Rightarrow> None
            | Some (d, n) \<Rightarrow> cons_token (Literal (JString d)) (tokens (drop n cs)))
      else if c = CHR ''-'' \<or> is_digit c
      then (case number_len (c # cs) of
              None \<Rightarrow> None
            | Some n \<Rightarrow> cons_token (Literal (JNumber (take n (c # cs)))) (tokens (drop (n - 1) cs)))
      else if HasPrefix (c # cs) ''true'' then cons_token (Literal (JBool True)) (tokens (drop 3 cs))
      else if HasPrefix (c # cs) ''false'' then cons_token (Literal (JBool False)) (tokens (drop 4 cs))
      else if HasPrefix (c # cs) ''null'' then cons_token (Literal JNull) (tokens (drop 3 cs))
      else None)"

text \<open>
  The scanner's parse state: the stack of the open arrays and objects, with the elements
  and members read so far (and the key that waits for its value), and what may come
  next.
\<close>

datatype frame = InArray "json list" | InObject "(string \<times> json) list" "string option"

datatype expect = ExpValue | ExpValueOrEnd | ExpKeyOrEnd | ExpKey | ExpColon | ExpCommaOrEnd
  | Complete json

definition maxNestingDepth :: int where
  "maxNestingDepth = 10000"

definition push_value :: "json \<Rightarrow> frame list \<Rightarrow> (frame list \<times> expect) option" where
  "push_value v stack =
     (case stack of
        [] \<Rightarrow> Some ([], Complete v)
      | InArray es # st \<Rightarrow> Some (InArray (es @ [v]) # st, ExpCommaOrEnd)
      | InObject ms (Some k) # st \<Rightarrow> Some (InObject (ms @ [(k, v)]) None # st, ExpCommaOrEnd)
      | InObject ms None # st \<Rightarrow> None)"

definition push_frame :: "frame \<Rightarrow> expect \<Rightarrow> frame list \<Rightarrow> (frame list \<times> expect) option" where
  "push_frame f e stack = (if int (length stack) < maxNestingDepth then Some (f # stack, e) else None)"

definition begin_value :: "token \<Rightarrow> frame list \<Rightarrow> (frame list \<times> expect) option" where
  "begin_value t stack =
     (case t of
        Literal v \<Rightarrow> push_value v stack
      | LBracket \<Rightarrow> push_frame (InArray []) ExpValueOrEnd stack
      | LBrace \<Rightarrow> push_frame (InObject [] None) ExpKeyOrEnd stack
      | _ \<Rightarrow> None)"

definition end_frame :: "token \<Rightarrow> frame list \<Rightarrow> (frame list \<times> expect) option" where
  "end_frame t stack =
     (case (t, stack) of
        (RBracket, InArray es # st) \<Rightarrow> push_value (JArray es) st
      | (RBrace, InObject ms None # st) \<Rightarrow> push_value (JObject ms) st
      | _ \<Rightarrow> None)"

definition begin_key :: "token \<Rightarrow> frame list \<Rightarrow> (frame list \<times> expect) option" where
  "begin_key t stack =
     (case (t, stack) of
        (Literal (JString k), InObject ms None # st) \<Rightarrow> Some (InObject ms (Some k) # st, ExpColon)
      | _ \<Rightarrow> None)"

definition step :: "token \<Rightarrow> frame list \<times> expect \<Rightarrow> (frame list \<times> expect) option" where
  "step t state =
     (case state of
        (stack, ExpValue) \<Rightarrow> begin_value t stack
      | (stack, ExpValueOrEnd) \<Rightarrow> if t = RBracket then end_frame t stack else begin_value t stack
      | (stack, ExpKeyOrEnd) \<Rightarrow> if t = RBrace then end_frame t stack else begin_key t stack
      | (stack, ExpKey) \<Rightarrow> begin_key t stack
      | (stack, ExpColon) \<Rightarrow> if t = Colon then Some (stack, ExpValue) else None
      | (stack, ExpCommaOrEnd) \<Rightarrow>
          if t = Comma
          then (case stack of
                  InArray es # st \<Rightarrow> Some (stack, ExpValue)
                | InObject ms k # st \<Rightarrow> Some (stack, ExpKey)
                | [] \<Rightarrow> None)
          else end_frame t stack
      | (stack, Complete v) \<Rightarrow> None)"

fun steps :: "token list \<Rightarrow> frame list \<times> expect \<Rightarrow> json option" where
  "steps [] state = (case state of (stack, Complete v) \<Rightarrow> Some v | _ \<Rightarrow> None)"
| "steps (t # ts) state = (case step t state of None \<Rightarrow> None | Some state' \<Rightarrow> steps ts state')"

text \<open>The value of a JSON text; \<open>None\<close> when \<^verbatim>\<open>checkValid\<close> reports a syntax
  error.\<close>

definition parse_json :: "string \<Rightarrow> json option" where
  "parse_json s = (case tokens s of None \<Rightarrow> None | Some ts \<Rightarrow> steps ts ([], ExpValue))"

text \<open>
  The name under which a key is matched with a field when it is not the field's own:
  letters of ASCII in upper case, and the two characters outside ASCII that fold to
  a letter of ASCII (U+017F to \<open>S\<close>, U+212A to \<open>K\<close>).
\<close>

fun foldName :: "string \<Rightarrow> string" where
  "foldName [] = []"
| "foldName (c # cs) =
     (if 97 \<le> byte c \<and> byte c \<le> 122 then char_of (byte c - 32) # foldName cs
      else if byte c = 197 \<and> HasPrefix cs [char_of (191::int)] then CHR ''S'' # foldName (drop 1 cs)
      else if byte c = 226 \<and> HasPrefix cs [char_of (132::int), char_of (170::int)]
      then CHR ''K'' # foldName (drop 2 cs)
      else c # foldName cs)"

text \<open>\<^verbatim>\<open>strconv.ParseInt(literal, 10, 64)\<close> on a number literal: the integer, when the
  literal has no fraction and no exponent and fits 64 bits.\<close>

definition digits_value :: "string \<Rightarrow> int" where
  "digits_value ds = foldl (\<lambda>a c. a * 10 + (byte c - 48)) 0 ds"

definition parse_int64 :: "string \<Rightarrow> int option" where
  "parse_int64 lit =
     (let neg = HasPrefix lit ''-'';
          ds = (if neg then drop 1 lit else lit);
          n = digits_value ds;
          i = (if neg then - n else n)
      in if ds \<noteq> [] \<and> list_all is_digit ds \<and> - (2 ^ 63) \<le> i \<and> i < 2 ^ 63
         then Some i else None)"

text \<open>\<^verbatim>\<open>uuid.ParseBytes\<close>, which \<^verbatim>\<open>UUID.UnmarshalText\<close> calls: the four lengths it
  accepts, the dashes it checks and the 16 pairs of hexadecimal digits.\<close>

definition xtob :: "char \<Rightarrow> char \<Rightarrow> int option" where
  "xtob x1 x2 =
     (case (hex_value x1, hex_value x2) of (Some a, Some b) \<Rightarrow> Some (a * 16 + b) | _ \<Rightarrow> None)"

fun hex_pairs :: "string \<Rightarrow> int list option" where
  "hex_pairs (x1 # x2 # r) =
     (case (xtob x1 x2, hex_pairs r) of (Some b, Some bs) \<Rightarrow> Some (b # bs) | _ \<Rightarrow> None)"
| "hex_pairs r = Some []"

definition UUID_of_bytes :: "int list \<Rightarrow> UUID" where
  "UUID_of_bytes bs = word_of_int (foldl (\<lambda>a b. a * 256 + b) 0 bs)"

definition asciiLower :: "string \<Rightarrow> string" where
  "asciiLower s = map (\<lambda>c. if 65 \<le> byte c \<and> byte c \<le> 90 then char_of (byte c + 32) else c) s"

definition ParseBytes :: "string \<Rightarrow> UUID option" where
  "ParseBytes b =
     (if length b = 32 then map_option UUID_of_bytes (hex_pairs b)
      else if length b = 36 \<or> length b = 38 \<or>
              (length b = 45 \<and> asciiLower (take 9 b) = ''urn:uuid:'')
      then (let b' = (if length b = 45 then drop 9 b else if length b = 38 then drop 1 b else b)
            in if b' ! 8 \<noteq> CHR ''-'' \<or> b' ! 13 \<noteq> CHR ''-'' \<or> b' ! 18 \<noteq> CHR ''-'' \<or>
                  b' ! 23 \<noteq> CHR ''-''
               then None
               else map_option UUID_of_bytes
                      (hex_pairs (take 8 b' @ take 4 (drop 9 b') @ take 4 (drop 14 b') @
                                  take 4 (drop 19 b') @ take 12 (drop 24 b'))))
      else None)"

text \<open>
  The members of an object stored into the struct that \<^verbatim>\<open>Login\<close> decodes into, in
  the order of the text: \<^verbatim>\<open>null\<close> leaves a field as it is, a value of another type
  than the field's is remembered as the error and decoding goes on.
\<close>

fun store_errorResp :: "(string \<times> json) list \<Rightarrow> errorResp \<Rightarrow> bool \<Rightarrow> json_error + errorResp" where
  "store_errorResp [] r saved = (if saved then Inl UnmarshalTypeError else Inr r)"
| "store_errorResp ((k, v) # ms) r saved =
     (if foldName k = ''ERROR_CODE''
      then (case v of
              JString x \<Rightarrow> store_errorResp ms (r\<lparr>ErrorCode := x\<rparr>) saved
            | JNull \<Rightarrow> store_errorResp ms r saved
            | _ \<Rightarrow> store_errorResp ms r True)
      else if foldName k = ''CODE''
      then (case v of
              JNumber lit \<Rightarrow>
                (case parse_int64 lit of
                   Some i \<Rightarrow> store_errorResp ms (r\<lparr>Code := i\<rparr>) saved
                 | None \<Rightarrow> store_errorResp ms r True)
            | JNull \<Rightarrow> store_errorResp ms r saved
            | _ \<Rightarrow> store_errorResp ms r True)
      else if foldName k = ''MSG''
      then (case v of
              JString x \<Rightarrow> store_errorResp ms (r\<lparr>Message := x\<rparr>) saved
            | JNull \<Rightarrow> store_errorResp ms r saved
            | _ \<Rightarrow> store_errorResp ms r True)
      else store_errorResp ms r saved)"

definition json_Unmarshal_errorResp :: "errorResp unmarshal" where
  "json_Unmarshal_errorResp body =
     (case parse_json body of
        None \<Rightarrow> Inl SyntaxError
      | Some JNull \<Rightarrow> Inr \<lparr>ErrorCode = [], Code = 0, Message = []\<rparr>
      | Some (JObject ms) \<Rightarrow> store_errorResp ms \<lparr>ErrorCode = [], Code = 0, Message = []\<rparr> False
      | Some _ \<Rightarrow> Inl UnmarshalTypeError)"

text \<open>The same for the struct of \<^verbatim>\<open>SignUp\<close>. The error of the text decoder of the
  \<^verbatim>\<open>id\<close> field ends the decoding at once.\<close>

fun store_userResp :: "(string \<times> json) list \<Rightarrow> userResp \<Rightarrow> bool \<Rightarrow> json_error + userResp" where
  "store_userResp [] r saved = (if saved then Inl UnmarshalTypeError else Inr r)"
| "store_userResp ((k, v) # ms) r saved =
     (if foldName k = ''ID''
      then (case v of
              JString x \<Rightarrow>
                (case ParseBytes x of
                   Some u \<Rightarrow> store_userResp ms (r\<lparr>resp_ID := u\<rparr>) saved
                 | None \<Rightarrow> Inl TextUnmarshalError)
            | JNull \<Rightarrow> store_userResp ms r saved
            | _ \<Rightarrow> store_userResp ms r True)
      else if foldName k = ''EMAIL''
      then (case v of
              JString x \<Rightarrow> store_userResp ms (r\<lparr>resp_Email := x\<rparr>) saved
            | JNull \<Rightarrow> store_userResp ms r saved
            | _ \<Rightarrow> store_userResp ms r True)
      else store_userResp ms r saved)"

definition json_Unmarshal_userResp :: "userResp unmarshal" where
  "json_Unmarshal_userResp body =
     (case parse_json body of
        None \<Rightarrow> Inl SyntaxError
      | Some JNull \<Rightarrow> Inr \<lparr>resp_ID = 0, resp_Email = []\<rparr>
      | Some (JObject ms) \<Rightarrow> store_userResp ms \<lparr>resp_ID = 0, resp_Email = []\<rparr> False
      | Some _ \<Rightarrow> Inl UnmarshalTypeError)"

section \<open>Concrete inputs\<close>

text \<open>An environment with the base URL and the anonymous key and no service key, and
  one with all three variables.\<close>

definition env1 :: environment where
  "env1 = [''SUPABASE_URL'' \<mapsto> ''https://db.example.co'', ''SUPABASE_ANON'' \<mapsto> ''anon-key'']"

definition env2 :: environment where
  "env2 = [''SUPABASE_URL'' \<mapsto> ''https://db.example.co'', ''SUPABASE_ANON'' \<mapsto> ''anon-key'',
           ''SUPABASE_SERVICE_KEY'' \<mapsto> ''service-key'']"

text \<open>The client that \<^verbatim>\<open>NewSupabaseClient()\<close> builds in these environments.\<close>

definition client1 :: SupabaseClient where
  "client1 = \<lparr>URL = ''https://db.example.co'', APIKey = ''anon-key'',
               Client = \<lparr>BaseURL = ''https://db.example.co'', Timeout = 10,
                 Header = [(''Content-Type'', ''application/json''),
                           (''Accept'', ''application/json''),
                           (''apikey'', ''anon-key''),
                           (''Authorization'', ''Bearer anon-key''),
                           (''Prefer'', ''return=representation'')]\<rparr>\<rparr>"

text \<open>A sender whose remote side answers every request with the given status and body,
  and a sender that fails with a transport error. The requests carry no typed payload
  (the payload type is \<open>unit\<close>).\<close>

definition replies :: "int \<Rightarrow> string \<Rightarrow> unit sender" where
  "replies status body = (\<lambda>c r. Inr \<lparr>StatusCode = status, Body = body\<rparr>)"

definition unreachable :: "unit sender" where
  "unreachable = (\<lambda>c r. Inl ''dial tcp: connection refused'')"

text \<open>A decoder that rejects every body, for the target types that the sources do not
  declare, where an operation does not reach its decoder.\<close>

definition rejects :: "'t unmarshal" where
  "rejects body = Inl SyntaxError"

text \<open>Response bodies: the structured errors of the auth service, a success payload and a
  plain text that both contain the marker \<^verbatim>\<open>error_code\<close>, and the sign-up responses
  with the zero identifier and with a real one.\<close>

definition body_invalid_credentials :: string where
  \<open>body_invalid_credentials =
     ''{"error_code":"invalid_credentials","code":400,"msg":"Invalid login credentials"}''\<close>

definition body_unknown_code :: string where
  \<open>body_unknown_code = ''{"error_code":"over_request_rate_limit","code":429,"msg":"Too many requests"}''\<close>

definition body_marker_in_payload :: string where
  \<open>body_marker_in_payload = ''{"access_token":"abc","note":"no error_code here"}''\<close>

definition body_marker_in_text :: string where
  \<open>body_marker_in_text = ''upstream failure (error_code 17)''\<close>

definition body_zero_id :: string where
  \<open>body_zero_id = ''{"id":"00000000-0000-0000-0000-000000000000","email":"a@b.com"}''\<close>

definition body_user :: string where
  \<open>body_user = ''{"id":"123e4567-e89b-12d3-a456-426614174000","email":"a@b.com"}''\<close>

section \<open>Notions of the specification\<close>

text \<open>The named failure reasons of the login flow, as the spec lists them: the
  three known codes by their names, any other code as the generic reason with the remote
  message; and the errors that are one of these reasons.\<close>

definition login_reason :: "errorResp \<Rightarrow> string" where
  "login_reason e =
     (if ErrorCode e \<in> {''invalid_credentials'', ''email_not_confirmed'', ''user_not_found''}
      then ErrorCode e
      else ''login_failed: '' @ Message e)"

definition named_reason :: "error \<Rightarrow> bool" where
  "named_reason e =
     (case e of
        Errorf m \<Rightarrow>
          m = ''invalid_credentials'' \<or> m = ''email_not_confirmed'' \<or> m = ''user_not_found'' \<or>
          HasPrefix m ''login_failed: ''
      | _ \<Rightarrow> False)"

text \<open>An error carries a status code and a body when it is made by \<^verbatim>\<open>fmt.Errorf\<close>
  and its message contains the decimal digits of the code and the text of the body.\<close>

definition carries :: "error option \<Rightarrow> int \<Rightarrow> string \<Rightarrow> bool" where
  "carries e status body =
     (case e of
        Some (Errorf m) \<Rightarrow> Contains m (fmt_d status) \<and> Contains m body
      | _ \<Rightarrow> False)"

section \<open>Facts about strings\<close>

lemma HasPrefix_iff: "HasPrefix s p \<longleftrightarrow> (\<exists>v. s = p @ v)"
proof
  assume "HasPrefix s p"
  then have "s = p @ drop (length p) s"
    by (metis HasPrefix_def append_take_drop_id)
  then show "\<exists>v. s = p @ v" ..
next
  assume "\<exists>v. s = p @ v"
  then show "HasPrefix s p" by (auto simp add: HasPrefix_def)
qed

lemma HasSuffix_iff: "HasSuffix s x \<longleftrightarrow> (\<exists>p. s = p @ x)"
proof
  assume "HasSuffix s x"
  then have "s = take (length s - length x) s @ x"
    by (metis HasSuffix_def append_take_drop_id)
  then show "\<exists>p. s = p @ x" ..
next
  assume "\<exists>p. s = p @ x"
  then show "HasSuffix s x" by (auto simp add: HasSuffix_def)
qed

lemma Contains_iff: "Contains s x \<longleftrightarrow> (\<exists>u v. s = u @ x @ v)"
proof (induction s)
  case Nil
  show ?case by auto
next
  case (Cons c cs)
  show ?case
  proof
    assume "Contains (c # cs) x"
    then consider "HasPrefix (c # cs) x" | "Contains cs x" by auto
    then show "\<exists>u v. c # cs = u @ x @ v"
    proof cases
      case 1
      then obtain v where "c # cs = x @ v" using HasPrefix_iff by blast
      then have "c # cs = [] @ x @ v" by simp
      then show ?thesis by blast
    next
      case 2
      then obtain u v where "cs = u @ x @ v" using Cons.IH by blast
      then have "c # cs = (c # u) @ x @ v" by simp
      then show ?thesis by blast
    qed
  next
    assume "\<exists>u v. c # cs = u @ x @ v"
    then obtain u v where uv: "c # cs = u @ x @ v" by blast
    show "Contains (c # cs) x"
    proof (cases u)
      case Nil
      with uv have "HasPrefix (c # cs) x" using HasPrefix_iff by auto
      then show ?thesis by simp
    next
      case (Cons a u')
      with uv have "cs = u' @ x @ v" by simp
      then have "Contains cs x" using Cons.IH by blast
      then show ?thesis by simp
    qed
  qed
qed

lemma fmt_d_500: "fmt_d 500 = ''500''"
  by (simp add: fmt_d_def decimal.simps digit_char_def)

lemma Contains_middle: "Contains (a @ x @ b) x"
  using Contains_iff by blast

lemma Contains_end: "Contains (a @ x) x"
  using Contains_middle [of a x "[]"] by simp

lemma carries_Errorf:
  "carries (Some (Errorf (a @ fmt_d status @ b @ body))) status body"
proof -
  have "Contains (a @ fmt_d status @ b @ body) (fmt_d status)"
    by (rule Contains_middle)
  moreover have "Contains ((a @ fmt_d status @ b) @ body) body"
    by (rule Contains_end)
  ultimately show ?thesis by (simp add: carries_def)
qed

section \<open>The decoder on the concrete bodies\<close>

lemma decode_invalid_credentials:
  "json_Unmarshal_errorResp body_invalid_credentials =
     Inr \<lparr>ErrorCode = ''invalid_credentials'', Code = 400, Message = ''Invalid login credentials''\<rparr>"
  unfolding body_invalid_credentials_def by code_simp

lemma decode_unknown_code:
  "json_Unmarshal_errorResp body_unknown_code =
     Inr \<lparr>ErrorCode = ''over_request_rate_limit'', Code = 429, Message = ''Too many requests''\<rparr>"
  unfolding body_unknown_code_def by code_simp

lemma decode_marker_in_payload:
  "json_Unmarshal_errorResp body_marker_in_payload = Inr \<lparr>ErrorCode = [], Code = 0, Message = []\<rparr>"
  unfolding body_marker_in_payload_def by code_simp

lemma decode_marker_in_text:
  "json_Unmarshal_errorResp body_marker_in_text = Inl SyntaxError"
  unfolding body_marker_in_text_def by code_simp

lemma decode_zero_id:
  "json_Unmarshal_userResp body_zero_id = Inr \<lparr>resp_ID = 0, resp_Email = ''a@b.com''\<rparr>"
  unfolding body_zero_id_def by code_simp

lemma decode_user:
  "json_Unmarshal_userResp body_user =
     Inr \<lparr>resp_ID = 0x123e4567e89b12d3a456426614174000, resp_Email = ''a@b.com''\<rparr>"
  unfolding body_user_def by code_simp

lemma marker_in_bodies:
  "Contains body_invalid_credentials ''error_code''"
  "Contains body_unknown_code ''error_code''"
  "Contains body_marker_in_payload ''error_code''"
  "Contains body_marker_in_text ''error_code''"
  unfolding body_invalid_credentials_def body_unknown_code_def body_marker_in_payload_def
    body_marker_in_text_def
  by code_simp+

section \<open>Construction and the default instance\<close>

lemma NewSupabaseClient_fst:
  "fst (NewSupabaseClient env args) =
     (if Getenv env ''SUPABASE_URL'' = [] \<or> tier_key env (tier_of args) = [] then None
      else Some \<lparr>URL = Getenv env ''SUPABASE_URL'', APIKey = tier_key env (tier_of args),
                 Client = \<lparr>BaseURL = Getenv env ''SUPABASE_URL'', Timeout = 10,
                   Header = [(''Content-Type'', ''application/json''),
                             (''Accept'', ''application/json''),
                             (''apikey'', tier_key env (tier_of args)),
                             (''Authorization'', ''Bearer '' @ tier_key env (tier_of args)),
                             (''Prefer'', ''return=representation'')]\<rparr>\<rparr>)"
  by (cases args) (simp_all add: NewSupabaseClient_def tier_key_def tier_of_def Let_def)

text \<open>
  C7: for every environment and tier argument, \<^verbatim>\<open>NewSupabaseClient\<close> returns an
  instance exactly when the base URL and the key that the tier selects are both non-empty,
  with these two values as its \<^verbatim>\<open>URL\<close> and \<^verbatim>\<open>APIKey\<close>; when either is
  empty it returns \<^verbatim>\<open>nil\<close>; an instance returned never has an empty base URL or an
  empty key.
\<close>

theorem NewSupabaseClient_usable:
  "(Getenv env ''SUPABASE_URL'' \<noteq> [] \<and> tier_key env (tier_of useServiceKey) \<noteq> [] \<longrightarrow>
      (\<exists>c. fst (NewSupabaseClient env useServiceKey) = Some c \<and>
           URL c = Getenv env ''SUPABASE_URL'' \<and>
           APIKey c = tier_key env (tier_of useServiceKey))) \<and>
   (Getenv env ''SUPABASE_URL'' = [] \<or> tier_key env (tier_of useServiceKey) = [] \<longrightarrow>
      fst (NewSupabaseClient env useServiceKey) = None) \<and>
   (\<forall>c. fst (NewSupabaseClient env useServiceKey) = Some c \<longrightarrow> URL c \<noteq> [] \<and> APIKey c \<noteq> [])"
  by (auto simp add: NewSupabaseClient_fst)

theorem NewSupabaseClient_usable_witness:
  "(\<exists>c. fst (NewSupabaseClient env1 []) = Some c \<and> URL c = ''https://db.example.co'' \<and>
        APIKey c = ''anon-key'') \<and>
   fst (NewSupabaseClient env1 [True]) = None \<and>
   fst (NewSupabaseClient Map.empty []) = None"
  using NewSupabaseClient_usable [of env1 "[]"] NewSupabaseClient_usable [of env1 "[True]"]
    NewSupabaseClient_usable [of Map.empty "[]"]
  by (simp add: env1_def Getenv_def tier_key_def tier_of_def)

lemma new_client_None:
  assumes "fst (NewSupabaseClient (environ p) args) = None"
  shows "new_client args p =
     (None, p\<lparr>stdout := stdout p @ snd (NewSupabaseClient (environ p) args),
               constructions := Suc (constructions p)\<rparr>)"
  using assms by (cases "NewSupabaseClient (environ p) args") (simp add: new_client_def Let_def)

lemma new_client_Some:
  assumes "fst (NewSupabaseClient (environ p) args) = Some c"
  shows "new_client args p =
     (Some (length (heap p)),
      p\<lparr>stdout := stdout p @ snd (NewSupabaseClient (environ p) args),
        constructions := Suc (constructions p), heap := heap p @ [c]\<rparr>)"
  using assms by (cases "NewSupabaseClient (environ p) args") (simp add: new_client_def Let_def)

lemma GetGlobalClient_built:
  "globalClient p = Some a \<Longrightarrow> GetGlobalClient p = (Some a, p)"
  by (simp add: GetGlobalClient_def)

lemma GetGlobalClient_fails:
  assumes "globalClient p = None" and "fst (NewSupabaseClient (environ p) []) = None"
  shows "GetGlobalClient p =
     (None, p\<lparr>stdout := stdout p @ snd (NewSupabaseClient (environ p) []),
               constructions := Suc (constructions p)\<rparr>)"
  using assms by (simp add: GetGlobalClient_def new_client_None Let_def)

lemma GetGlobalClient_builds:
  assumes "globalClient p = None" and "fst (NewSupabaseClient (environ p) []) = Some c"
  shows "GetGlobalClient p =
     (Some (length (heap p)),
      p\<lparr>stdout := stdout p @ snd (NewSupabaseClient (environ p) []),
        constructions := Suc (constructions p), heap := heap p @ [c],
        globalClient := Some (length (heap p))\<rparr>)"
  using assms by (simp add: GetGlobalClient_def new_client_Some Let_def)

lemma calls_built:
  "globalClient p = Some a \<Longrightarrow> GetGlobalClient_calls n p = (replicate n (Some a), p)"
  by (induction n) (simp_all add: GetGlobalClient_built)

lemma calls_fail:
  assumes "globalClient p = None" and "fst (NewSupabaseClient (environ p) []) = None"
  shows "fst (GetGlobalClient_calls n p) = replicate n None \<and>
         constructions (snd (GetGlobalClient_calls n p)) = constructions p + n \<and>
         heap (snd (GetGlobalClient_calls n p)) = heap p"
  using assms
proof (induction n arbitrary: p)
  case 0
  show ?case by simp
next
  case (Suc n)
  let ?p' = "p\<lparr>stdout := stdout p @ snd (NewSupabaseClient (environ p) []),
               constructions := Suc (constructions p)\<rparr>"
  have step: "GetGlobalClient p = (None, ?p')"
    using Suc.prems by (rule GetGlobalClient_fails)
  have "globalClient ?p' = None" and "fst (NewSupabaseClient (environ ?p') []) = None"
    using Suc.prems by simp_all
  then have "fst (GetGlobalClient_calls n ?p') = replicate n None \<and>
         constructions (snd (GetGlobalClient_calls n ?p')) = constructions ?p' + n \<and>
         heap (snd (GetGlobalClient_calls n ?p')) = heap ?p'"
    by (rule Suc.IH)
  with step show ?case by (simp add: split_beta)
qed

lemma calls_build:
  assumes "globalClient p = None" and "fst (NewSupabaseClient (environ p) []) = Some c"
  shows "fst (GetGlobalClient_calls (Suc n) p) = replicate (Suc n) (Some (length (heap p))) \<and>
         constructions (snd (GetGlobalClient_calls (Suc n) p)) = Suc (constructions p) \<and>
         heap (snd (GetGlobalClient_calls (Suc n) p)) = heap p @ [c]"
proof -
  let ?p' = "p\<lparr>stdout := stdout p @ snd (NewSupabaseClient (environ p) []),
        constructions := Suc (constructions p), heap := heap p @ [c],
        globalClient := Some (length (heap p))\<rparr>"
  have step: "GetGlobalClient p = (Some (length (heap p)), ?p')"
    using assms by (rule GetGlobalClient_builds)
  have "globalClient ?p' = Some (length (heap p))" by simp
  then have "GetGlobalClient_calls n ?p' = (replicate n (Some (length (heap p))), ?p')"
    by (rule calls_built)
  with step show ?thesis by simp
qed

lemma construct_env1: "fst (NewSupabaseClient env1 []) = Some client1"
  by (simp add: NewSupabaseClient_def env1_def Getenv_def client1_def Let_def)

lemma construct_empty: "fst (NewSupabaseClient Map.empty []) = None"
  by (simp add: NewSupabaseClient_def Getenv_def Let_def)

text \<open>
  C3, as the code has it: in a sequence of calls of \<^verbatim>\<open>GetGlobalClient\<close> (the
  environment unchanged, no other writer of the variable), once an instance exists every
  call returns that identical instance and constructs nothing; while construction fails,
  every call returns \<^verbatim>\<open>nil\<close> and attempts the construction again, one attempt for
  each call; when the first construction succeeds it is the only one, and all calls
  return its instance. At most one construction succeeds.
\<close>

theorem GetGlobalClient_calls_construct:
  "(globalClient p = Some a \<longrightarrow>
      GetGlobalClient_calls n p = (replicate n (Some a), p)) \<and>
   (globalClient p = None \<and> fst (NewSupabaseClient (environ p) []) = None \<longrightarrow>
      fst (GetGlobalClient_calls n p) = replicate n None \<and>
      constructions (snd (GetGlobalClient_calls n p)) = constructions p + n) \<and>
   (globalClient p = None \<and> fst (NewSupabaseClient (environ p) []) \<noteq> None \<longrightarrow>
      fst (GetGlobalClient_calls (Suc n) p) = replicate (Suc n) (Some (length (heap p))) \<and>
      constructions (snd (GetGlobalClient_calls (Suc n) p)) = Suc (constructions p)) \<and>
   length (heap (snd (GetGlobalClient_calls n p))) \<le> Suc (length (heap p))"
proof -
  have built: "globalClient p = Some a \<longrightarrow>
      GetGlobalClient_calls n p = (replicate n (Some a), p)"
    by (simp add: calls_built)
  have fail: "globalClient p = None \<and> fst (NewSupabaseClient (environ p) []) = None \<longrightarrow>
      fst (GetGlobalClient_calls n p) = replicate n None \<and>
      constructions (snd (GetGlobalClient_calls n p)) = constructions p + n"
    using calls_fail by blast
  have build: "globalClient p = None \<and> fst (NewSupabaseClient (environ p) []) \<noteq> None \<longrightarrow>
      fst (GetGlobalClient_calls (Suc n) p) = replicate (Suc n) (Some (length (heap p))) \<and>
      constructions (snd (GetGlobalClient_calls (Suc n) p)) = Suc (constructions p)"
    using calls_build by blast
  have heap: "length (heap (snd (GetGlobalClient_calls n p))) \<le> Suc (length (heap p))"
  proof (cases "globalClient p")
    case (Some b)
    then show ?thesis by (simp add: calls_built)
  next
    case None
    show ?thesis
    proof (cases "fst (NewSupabaseClient (environ p) [])")
      case absent: None
      with None show ?thesis using calls_fail [of p n] by simp
    next
      case (Some c)
      show ?thesis
      proof (cases n)
        case 0
        then show ?thesis by simp
      next
        case (Suc m)
        with None Some show ?thesis using calls_build [of p c m] by simp
      qed
    qed
  qed
  from built fail build heap show ?thesis by blast
qed

theorem GetGlobalClient_calls_construct_witness:
  "fst (GetGlobalClient_calls 3 (initial env1)) = [Some 0, Some 0, Some 0] \<and>
   constructions (snd (GetGlobalClient_calls 3 (initial env1))) = 1 \<and>
   fst (GetGlobalClient_calls 3 (initial Map.empty)) = [None, None, None] \<and>
   constructions (snd (GetGlobalClient_calls 3 (initial Map.empty))) = 3 \<and>
   GetGlobalClient_calls 2 (snd (GetGlobalClient (initial env1))) =
     ([Some 0, Some 0], snd (GetGlobalClient (initial env1)))"
proof -
  have built: "fst (GetGlobalClient_calls (Suc 2) (initial env1)) = replicate (Suc 2) (Some 0) \<and>
      constructions (snd (GetGlobalClient_calls (Suc 2) (initial env1))) = Suc 0"
    using GetGlobalClient_calls_construct [where p = "initial env1" and n = 2,
        THEN conjunct2, THEN conjunct2, THEN conjunct1]
    by (simp add: initial_def construct_env1)
  have failed: "fst (GetGlobalClient_calls 3 (initial Map.empty)) = replicate 3 None \<and>
      constructions (snd (GetGlobalClient_calls 3 (initial Map.empty))) = 0 + 3"
    using GetGlobalClient_calls_construct [where p = "initial Map.empty" and n = 3,
        THEN conjunct2, THEN conjunct1]
    by (simp add: initial_def construct_empty)
  have "globalClient (snd (GetGlobalClient (initial env1))) = Some 0"
    using GetGlobalClient_builds [of "initial env1" client1]
    by (simp add: initial_def construct_env1)
  then have again: "GetGlobalClient_calls 2 (snd (GetGlobalClient (initial env1))) =
      (replicate 2 (Some 0), snd (GetGlobalClient (initial env1)))"
    using GetGlobalClient_calls_construct [where p = "snd (GetGlobalClient (initial env1))"
        and n = 2 and a = 0, THEN conjunct1]
    by simp
  from built failed again show ?thesis
    by (simp add: numeral_2_eq_2 numeral_3_eq_3)
qed

text \<open>The claim as stated allows one construction for the life of the process and no
  further attempt after a failed one. Two calls in an environment without the variables
  make two attempts.\<close>

theorem GetGlobalClient_retries_counterexample:
  "fst (GetGlobalClient_calls 2 (initial Map.empty)) = [None, None] \<and>
   constructions (snd (GetGlobalClient_calls 2 (initial Map.empty))) = 2"
  using calls_fail [of "initial Map.empty" 2]
  by (simp add: initial_def construct_empty numeral_2_eq_2)

text \<open>After \<^verbatim>\<open>globalClientOnce\<close> has fired, \<^verbatim>\<open>InitGlobalClient\<close> changes nothing
  and returns the instance that exists, whatever its argument.\<close>

lemma InitGlobalClient_after_Do:
  "globalClientOnce p \<Longrightarrow>
     snd (InitGlobalClient args p) = p \<and> fst (fst (InitGlobalClient args p)) = globalClient p"
  by (simp add: InitGlobalClient_def)

text \<open>
  C4 fails on the code: \<^verbatim>\<open>GetGlobalClient\<close> builds the default instance without
  firing \<^verbatim>\<open>globalClientOnce\<close>, so the first \<^verbatim>\<open>InitGlobalClient\<close> after it
  constructs again and overwrites the variable. With all three variables set,
  \<^verbatim>\<open>InitGlobalClient(true)\<close> returns a second instance, with the service key; with
  no service key set, it replaces the instance by \<^verbatim>\<open>nil\<close> and returns the error.
\<close>

theorem InitGlobalClient_replaces_instance:
  "fst (GetGlobalClient (initial env2)) = Some 0 \<and>
   fst (InitGlobalClient [True] (snd (GetGlobalClient (initial env2)))) = (Some 1, None) \<and>
   globalClient (snd (InitGlobalClient [True] (snd (GetGlobalClient (initial env2))))) = Some 1 \<and>
   map APIKey (heap (snd (InitGlobalClient [True] (snd (GetGlobalClient (initial env2)))))) =
     [''anon-key'', ''service-key''] \<and>
   constructions (snd (InitGlobalClient [True] (snd (GetGlobalClient (initial env2))))) = 2 \<and>
   fst (InitGlobalClient [True] (snd (GetGlobalClient (initial env1)))) =
     (None, Some (Errorf ''failed to initialize global Supabase client'')) \<and>
   globalClient (snd (InitGlobalClient [True] (snd (GetGlobalClient (initial env1))))) = None"
  by (simp add: GetGlobalClient_def InitGlobalClient_def new_client_def NewSupabaseClient_def
      initial_def env1_def env2_def Getenv_def Let_def)

section \<open>Generic create\<close>

text \<open>In \<^verbatim>\<open>POST\<close> the check of the empty body precedes the check of the status, so
  it applies whatever the status is.\<close>

lemma POST_empty_body:
  assumes "send (Client s) \<lparr>Method = ''POST'', Url = URL s @ ''/rest/v1/'' @ table @ ''?select=*'',
             Payload = Data data\<rparr> = Inr resp"
    and "Body resp = []"
  shows "fst (POST send s table data) = (Some ''{}'', None)"
  using assms by (simp add: POST_def Let_def)

text \<open>
  C1, as the code has it: for every response with a body that is not empty, \<^verbatim>\<open>POST\<close>
  returns success if and only if the status is 201 (a 2xx status other than 201 and a
  status outside 2xx both yield the error with the raw body); an empty body on a 2xx
  response is normalised to the payload \<^verbatim>\<open>{}\<close> and returned as success.
\<close>

theorem POST_success_iff_Created:
  assumes "send (Client s) \<lparr>Method = ''POST'', Url = URL s @ ''/rest/v1/'' @ table @ ''?select=*'',
             Payload = Data data\<rparr> = Inr resp"
  shows "(Body resp \<noteq> [] \<longrightarrow>
            (snd (fst (POST send s table data)) = None \<longleftrightarrow> StatusCode resp = 201)) \<and>
         (Body resp \<noteq> [] \<and> StatusCode resp = 201 \<longrightarrow>
            fst (POST send s table data) = (Some (Body resp), None)) \<and>
         (Body resp \<noteq> [] \<and> StatusCode resp \<noteq> 201 \<longrightarrow>
            fst (POST send s table data) =
              (None, Some (Errorf (''supabase error: '' @ Body resp)))) \<and>
         (Body resp = [] \<and> 200 \<le> StatusCode resp \<and> StatusCode resp < 300 \<longrightarrow>
            fst (POST send s table data) = (Some ''{}'', None))"
  using assms by (simp add: POST_def Let_def)

theorem POST_success_iff_Created_witness:
  \<open>fst (POST (replies 200 ''{"ok":true}'') client1 ''listings'' ()) =
     (None, Some (Errorf ''supabase error: {"ok":true}'')) \<and>
   fst (POST (replies 500 ''{"message":"boom"}'') client1 ''listings'' ()) =
     (None, Some (Errorf ''supabase error: {"message":"boom"}'')) \<and>
   fst (POST (replies 201 ''[{"id":7}]'') client1 ''listings'' ()) = (Some ''[{"id":7}]'', None) \<and>
   fst (POST (replies 201 []) client1 ''listings'' ()) = (Some ''{}'', None)\<close>
  using POST_success_iff_Created [of \<open>replies 200 ''{"ok":true}''\<close> client1 "''listings''" "()"
      \<open>\<lparr>StatusCode = 200, Body = ''{"ok":true}''\<rparr>\<close>]
    POST_success_iff_Created [of \<open>replies 500 ''{"message":"boom"}''\<close> client1 "''listings''" "()"
      \<open>\<lparr>StatusCode = 500, Body = ''{"message":"boom"}''\<rparr>\<close>]
    POST_success_iff_Created [of \<open>replies 201 ''[{"id":7}]''\<close> client1 "''listings''" "()"
      \<open>\<lparr>StatusCode = 201, Body = ''[{"id":7}]''\<rparr>\<close>]
    POST_success_iff_Created [of \<open>replies 201 []\<close> client1 "''listings''" "()"
      \<open>\<lparr>StatusCode = 201, Body = []\<rparr>\<close>]
  by (simp add: replies_def)

text \<open>The claim as stated asks for an error on every 2xx status other than 201. The check
  of the empty body comes before the check of the status: a response 204 with no body is
  a success.\<close>

theorem POST_empty_body_counterexample:
  "fst (POST (replies 204 []) client1 ''listings'' ()) = (Some ''{}'', None)"
  by (simp add: POST_def replies_def)

section \<open>File upload\<close>

text \<open>
  C2, as the code has it: the content type that \<^verbatim>\<open>UploadImage\<close> infers and prints is
  \<^verbatim>\<open>image/png\<close> when the file name ends in \<^verbatim>\<open>.png\<close>, \<^verbatim>\<open>image/webp\<close> when it
  ends in \<^verbatim>\<open>.webp\<close> and \<^verbatim>\<open>image/jpeg\<close> otherwise, the comparison being exact in
  the case of the letters: \<^verbatim>\<open>photo.PNG\<close>, \<^verbatim>\<open>photo.webp\<close>, \<^verbatim>\<open>photo.jpg\<close> and
  \<^verbatim>\<open>photo\<close> map to jpeg, webp, jpeg and jpeg.
\<close>

theorem contentType_by_extension:
  "contentType filename =
     (if \<exists>p. filename = p @ ''.png'' then ''image/png''
      else if \<exists>p. filename = p @ ''.webp'' then ''image/webp''
      else ''image/jpeg'') \<and>
   snd (UploadImage send s filename bucket image') ! 1 =
     ''Using content type: '' @ contentType filename \<and>
   contentType ''photo.PNG'' = ''image/jpeg'' \<and>
   contentType ''photo.webp'' = ''image/webp'' \<and>
   contentType ''photo.jpg'' = ''image/jpeg'' \<and>
   contentType ''photo'' = ''image/jpeg''"
proof -
  have general: "contentType filename =
     (if \<exists>p. filename = p @ ''.png'' then ''image/png''
      else if \<exists>p. filename = p @ ''.webp'' then ''image/webp''
      else ''image/jpeg'')"
    unfolding contentType_def HasSuffix_iff by simp
  have printed: "snd (UploadImage send s filename bucket image') ! 1 =
     ''Using content type: '' @ contentType filename"
    by (simp add: UploadImage_def Let_def split: sum.splits)
  have examples: "contentType ''photo.PNG'' = ''image/jpeg''"
    "contentType ''photo.webp'' = ''image/webp''"
    "contentType ''photo.jpg'' = ''image/jpeg''"
    "contentType ''photo'' = ''image/jpeg''"
    by (simp_all add: contentType_def HasSuffix_def)
  from general printed examples show ?thesis by blast
qed

text \<open>The claim as stated maps \<^verbatim>\<open>photo.PNG\<close> to \<^verbatim>\<open>image/png\<close>.\<close>

theorem contentType_upper_case_counterexample:
  "contentType ''photo.PNG'' \<noteq> ''image/png''"
  by (simp add: contentType_def HasSuffix_def)

section \<open>Sign-up\<close>

text \<open>
  C6: on a response of the sender, \<^verbatim>\<open>SignUp\<close> returns a \<^verbatim>\<open>User\<close> exactly when the
  status is 200 or 201, the body parses and the parsed identifier is not the zero UUID,
  and the record holds the parsed identifier and email; when the parsed identifier is the
  zero UUID it returns an error and no record, also on status 200 and 201.
\<close>

theorem SignUp_returns_User_iff:
  assumes "send (Client s) \<lparr>Method = ''POST'', Url = URL s @ ''/auth/v1/signup'',
             Payload = Fields [(''email'', email), (''password'', password)]\<rparr> = Inr resp"
  shows "(fst (SignUp send unmarshal s email password) = Some u \<longleftrightarrow>
            (StatusCode resp = 200 \<or> StatusCode resp = 201) \<and>
            (\<exists>r. unmarshal (Body resp) = Inr r \<and> resp_ID r \<noteq> 0 \<and>
                 u = \<lparr>ID = resp_ID r, Email = resp_Email r\<rparr>)) \<and>
         (unmarshal (Body resp) = Inr r \<and> resp_ID r = 0 \<longrightarrow>
            fst (SignUp send unmarshal s email password) = None \<and>
            snd (SignUp send unmarshal s email password) =
              Some (if StatusCode resp = 200 \<or> StatusCode resp = 201
                    then Errorf ''user ID missing in response''
                    else Errorf (''failed to sign up user: '' @ Body resp)))"
  using assms by (auto simp add: SignUp_def Let_def split: sum.splits)

theorem SignUp_returns_User_iff_witness:
  "SignUp (replies 201 body_zero_id) json_Unmarshal_userResp client1 ''a@b.com'' ''secret'' =
     (None, Some (Errorf ''user ID missing in response'')) \<and>
   SignUp (replies 200 body_zero_id) json_Unmarshal_userResp client1 ''a@b.com'' ''secret'' =
     (None, Some (Errorf ''user ID missing in response'')) \<and>
   fst (SignUp (replies 201 body_user) json_Unmarshal_userResp client1 ''a@b.com'' ''secret'') =
     Some \<lparr>ID = 0x123e4567e89b12d3a456426614174000, Email = ''a@b.com''\<rparr>"
proof -
  have created: "SignUp (replies 201 body_zero_id) json_Unmarshal_userResp client1 ''a@b.com'' ''secret'' =
      (None, Some (Errorf ''user ID missing in response''))"
    using SignUp_returns_User_iff [where send = "replies 201 body_zero_id" and s = client1 and email = "''a@b.com''" and password = "''secret''"
        and resp = "\<lparr>StatusCode = 201, Body = body_zero_id\<rparr>"
        and unmarshal = json_Unmarshal_userResp
        and r = "\<lparr>resp_ID = 0, resp_Email = ''a@b.com''\<rparr>"]
    by (simp add: replies_def decode_zero_id prod_eq_iff)
  have ok: "SignUp (replies 200 body_zero_id) json_Unmarshal_userResp client1 ''a@b.com'' ''secret'' =
      (None, Some (Errorf ''user ID missing in response''))"
    using SignUp_returns_User_iff [where send = "replies 200 body_zero_id" and s = client1 and email = "''a@b.com''" and password = "''secret''"
        and resp = "\<lparr>StatusCode = 200, Body = body_zero_id\<rparr>"
        and unmarshal = json_Unmarshal_userResp
        and r = "\<lparr>resp_ID = 0, resp_Email = ''a@b.com''\<rparr>"]
    by (simp add: replies_def decode_zero_id prod_eq_iff)
  have user: "fst (SignUp (replies 201 body_user) json_Unmarshal_userResp client1 ''a@b.com'' ''secret'') =
      Some \<lparr>ID = 0x123e4567e89b12d3a456426614174000, Email = ''a@b.com''\<rparr>"
    using SignUp_returns_User_iff [where send = "replies 201 body_user" and s = client1 and email = "''a@b.com''" and password = "''secret''"
        and resp = "\<lparr>StatusCode = 201, Body = body_user\<rparr>"
        and unmarshal = json_Unmarshal_userResp
        and u = "\<lparr>ID = 0x123e4567e89b12d3a456426614174000, Email = ''a@b.com''\<rparr>"]
    by (simp add: replies_def decode_user)
  from created ok user show ?thesis by blast
qed

section \<open>Login\<close>

text \<open>
  C5, as the code has it: when the body contains the marker \<^verbatim>\<open>error_code\<close> and parses
  as the structured error, \<^verbatim>\<open>Login\<close> returns the named reason of the closed set for
  the parsed code, whatever the status (200 included); when the body does not contain the
  marker, every status other than 200 yields the generic login-failed error with the raw
  body.
\<close>

theorem Login_error_code_first:
  assumes "send (Client s) \<lparr>Method = ''POST'', Url = URL s @ ''/auth/v1/token?grant_type=password'',
             Payload = Fields [(''email'', email), (''password'', password)]\<rparr> = Inr resp"
  shows "(Contains (Body resp) ''error_code'' \<and> unmarshal_error (Body resp) = Inr e \<longrightarrow>
            Login send unmarshal_error unmarshal_auth s email password =
              (None, Some (Errorf (login_reason e))) \<and>
            named_reason (Errorf (login_reason e))) \<and>
         (\<not> Contains (Body resp) ''error_code'' \<and> StatusCode resp \<noteq> 200 \<longrightarrow>
            Login send unmarshal_error unmarshal_auth s email password =
              (None, Some (Errorf (''login_failed: '' @ Body resp))))"
  using assms by (auto simp add: Login_def Let_def login_reason_def named_reason_def HasPrefix_def)

theorem Login_error_code_first_witness:
  "Login (replies 200 body_invalid_credentials) json_Unmarshal_errorResp rejects client1
       ''a@b.com'' ''secret'' = (None :: unit option, Some (Errorf ''invalid_credentials'')) \<and>
   Login (replies 400 body_invalid_credentials) json_Unmarshal_errorResp rejects client1
       ''a@b.com'' ''secret'' = (None :: unit option, Some (Errorf ''invalid_credentials'')) \<and>
   Login (replies 429 body_unknown_code) json_Unmarshal_errorResp rejects client1
       ''a@b.com'' ''secret'' =
     (None :: unit option, Some (Errorf ''login_failed: Too many requests'')) \<and>
   Login (replies 502 ''Bad Gateway'') json_Unmarshal_errorResp rejects client1
       ''a@b.com'' ''secret'' = (None :: unit option, Some (Errorf ''login_failed: Bad Gateway''))"
proof -
  have ok: "Login (replies 200 body_invalid_credentials) json_Unmarshal_errorResp rejects client1
       ''a@b.com'' ''secret'' = (None :: unit option, Some (Errorf ''invalid_credentials''))"
    using Login_error_code_first [where send = "replies 200 body_invalid_credentials"

        and s = client1 and email = "''a@b.com''" and password = "''secret''" and resp = "\<lparr>StatusCode = 200, Body = body_invalid_credentials\<rparr>"
        and unmarshal_error = json_Unmarshal_errorResp
        and unmarshal_auth = "rejects :: unit unmarshal"
        and e = "\<lparr>ErrorCode = ''invalid_credentials'', Code = 400,
                   Message = ''Invalid login credentials''\<rparr>"]
    by (simp add: replies_def decode_invalid_credentials marker_in_bodies login_reason_def)
  have bad: "Login (replies 400 body_invalid_credentials) json_Unmarshal_errorResp rejects client1
       ''a@b.com'' ''secret'' = (None :: unit option, Some (Errorf ''invalid_credentials''))"
    using Login_error_code_first [where send = "replies 400 body_invalid_credentials"

        and s = client1 and email = "''a@b.com''" and password = "''secret''" and resp = "\<lparr>StatusCode = 400, Body = body_invalid_credentials\<rparr>"
        and unmarshal_error = json_Unmarshal_errorResp
        and unmarshal_auth = "rejects :: unit unmarshal"
        and e = "\<lparr>ErrorCode = ''invalid_credentials'', Code = 400,
                   Message = ''Invalid login credentials''\<rparr>"]
    by (simp add: replies_def decode_invalid_credentials marker_in_bodies login_reason_def)
  have unknown: "Login (replies 429 body_unknown_code) json_Unmarshal_errorResp rejects client1
       ''a@b.com'' ''secret'' =
     (None :: unit option, Some (Errorf ''login_failed: Too many requests''))"
    using Login_error_code_first [where send = "replies 429 body_unknown_code"

        and s = client1 and email = "''a@b.com''" and password = "''secret''" and resp = "\<lparr>StatusCode = 429, Body = body_unknown_code\<rparr>"
        and unmarshal_error = json_Unmarshal_errorResp
        and unmarshal_auth = "rejects :: unit unmarshal"
        and e = "\<lparr>ErrorCode = ''over_request_rate_limit'', Code = 429,
                   Message = ''Too many requests''\<rparr>"]
    by (simp add: replies_def decode_unknown_code marker_in_bodies login_reason_def)
  have "\<not> Contains ''Bad Gateway'' ''error_code''"
    by code_simp
  then have gateway: "Login (replies 502 ''Bad Gateway'') json_Unmarshal_errorResp rejects client1
       ''a@b.com'' ''secret'' = (None :: unit option, Some (Errorf ''login_failed: Bad Gateway''))"
    using Login_error_code_first [where send = "replies 502 ''Bad Gateway''"

        and s = client1 and email = "''a@b.com''" and password = "''secret''"
        and resp = "\<lparr>StatusCode = 502, Body = ''Bad Gateway''\<rparr>"
        and unmarshal_error = json_Unmarshal_errorResp
        and unmarshal_auth = "rejects :: unit unmarshal"]
    by (simp add: replies_def)
  from ok bad unknown gateway show ?thesis by blast
qed

text \<open>The claim as stated promises a reason of the closed set for every body that
  contains the marker. A body that contains it and is not JSON yields the parse error.\<close>

theorem Login_unparsable_error_counterexample:
  "Login (replies 200 body_marker_in_text) json_Unmarshal_errorResp rejects client1
       ''a@b.com'' ''secret'' =
     (None :: unit option, Some (Wrap ''failed to parse error response: '' (Json SyntaxError))) \<and>
   \<not> named_reason (Wrap ''failed to parse error response: '' (Json SyntaxError))"
  by (simp add: Login_def replies_def marker_in_bodies decode_marker_in_text named_reason_def)

text \<open>
  C9: when the body contains \<^verbatim>\<open>error_code\<close> anywhere, \<^verbatim>\<open>Login\<close> returns an error
  and no \<^verbatim>\<open>AuthResponse\<close>, the decoder of the \<^verbatim>\<open>AuthResponse\<close> has no part in
  the result, and when the body does not parse as the error structure the result is the
  parse error; the status plays no role (200 included).
\<close>

theorem Login_marker_anywhere:
  assumes "send (Client s) \<lparr>Method = ''POST'', Url = URL s @ ''/auth/v1/token?grant_type=password'',
             Payload = Fields [(''email'', email), (''password'', password)]\<rparr> = Inr resp"
    and "Body resp = u @ ''error_code'' @ v"
  shows "fst (Login send unmarshal_error unmarshal_auth s email password) = None \<and>
         snd (Login send unmarshal_error unmarshal_auth s email password) \<noteq> None \<and>
         Login send unmarshal_error unmarshal_auth s email password =
           Login send unmarshal_error unmarshal_auth' s email password \<and>
         (unmarshal_error (Body resp) = Inl err \<longrightarrow>
            Login send unmarshal_error unmarshal_auth s email password =
              (None, Some (Wrap ''failed to parse error response: '' (Json err))))"
proof -
  have "Contains (Body resp) ''error_code''"
    using assms(2) Contains_iff by blast
  with assms(1) show ?thesis
    by (simp add: Login_def Let_def split: sum.splits)
qed

theorem Login_marker_anywhere_witness:
  "Login (replies 200 body_marker_in_payload) json_Unmarshal_errorResp rejects client1
       ''a@b.com'' ''secret'' = (None :: unit option, Some (Errorf ''login_failed: '')) \<and>
   Login (replies 200 body_marker_in_text) json_Unmarshal_errorResp rejects client1
       ''a@b.com'' ''secret'' =
     (None :: unit option, Some (Wrap ''failed to parse error response: '' (Json SyntaxError)))"
proof -
  have 1: \<open>Body \<lparr>StatusCode = 200, Body = body_marker_in_payload\<rparr> =
      ''{"access_token":"abc","note":"no '' @ ''error_code'' @ '' here"}''\<close>
    by (simp add: body_marker_in_payload_def)
  have 2: "Body \<lparr>StatusCode = 200, Body = body_marker_in_text\<rparr> =
      ''upstream failure ('' @ ''error_code'' @ '' 17)''"
    by (simp add: body_marker_in_text_def)
  have sent: "replies 200 body_marker_in_payload (Client client1)
      \<lparr>Method = ''POST'', Url = URL client1 @ ''/auth/v1/token?grant_type=password'',
       Payload = Fields [(''email'', ''a@b.com''), (''password'', ''secret'')]\<rparr> =
      Inr \<lparr>StatusCode = 200, Body = body_marker_in_payload\<rparr>"
    by (simp add: replies_def)
  have payload:
    "Login (replies 200 body_marker_in_payload) json_Unmarshal_errorResp
           (rejects :: unit unmarshal) client1 ''a@b.com'' ''secret'' =
     Login (replies 200 body_marker_in_payload) json_Unmarshal_errorResp
           (\<lambda>b. Inr ()) client1 ''a@b.com'' ''secret''"
    using Login_marker_anywhere [where send = "replies 200 body_marker_in_payload"
        and s = client1 and email = "''a@b.com''" and password = "''secret''"
        and resp = "\<lparr>StatusCode = 200, Body = body_marker_in_payload\<rparr>"
        and unmarshal_error = json_Unmarshal_errorResp
        and unmarshal_auth = "rejects :: unit unmarshal"
        and unmarshal_auth' = "\<lambda>b. Inr ()" and err = SyntaxError, OF sent 1]
    by blast
  have "Login (replies 200 body_marker_in_payload) json_Unmarshal_errorResp
           (\<lambda>b. Inr ()) client1 ''a@b.com'' ''secret'' = (None, Some (Errorf ''login_failed: ''))"
    by (simp add: Login_def replies_def marker_in_bodies decode_marker_in_payload)
  with payload have first:
    "Login (replies 200 body_marker_in_payload) json_Unmarshal_errorResp
       (rejects :: unit unmarshal) client1 ''a@b.com'' ''secret'' =
     (None, Some (Errorf ''login_failed: ''))"
    by simp
  have second:
    "Login (replies 200 body_marker_in_text) json_Unmarshal_errorResp
       (rejects :: unit unmarshal) client1 ''a@b.com'' ''secret'' =
     (None, Some (Wrap ''failed to parse error response: '' (Json SyntaxError)))"
    using Login_marker_anywhere [where send = "replies 200 body_marker_in_text"
        and s = client1 and email = "''a@b.com''" and password = "''secret''"
        and resp = "\<lparr>StatusCode = 200, Body = body_marker_in_text\<rparr>"
        and unmarshal_error = json_Unmarshal_errorResp
        and unmarshal_auth = "rejects :: unit unmarshal"
        and err = SyntaxError, OF _ 2]
    by (simp add: replies_def decode_marker_in_text)
  from first second show ?thesis by blast
qed

section \<open>Errors of all operations\<close>

text \<open>
  C8, as the code has it: the error of a non-success status carries the status code and
  the raw body for \<^verbatim>\<open>GET\<close>, \<^verbatim>\<open>PATCH\<close>, \<^verbatim>\<open>DELETE\<close> and
  \<^verbatim>\<open>UploadImage\<close>; for \<^verbatim>\<open>POST\<close>, \<^verbatim>\<open>SignUp\<close>, \<^verbatim>\<open>Login\<close> and
  \<^verbatim>\<open>UpdateUser\<close> it is a fixed text followed by the raw body, the same for every
  status.
\<close>

theorem status_errors_carry:
  "(send (Client s) \<lparr>Method = ''GET'', Url = URL s @ ''/rest/v1/'' @ table @ ''?'' @ query,
       Payload = NoBody\<rparr> = Inr resp \<and> (StatusCode resp < 200 \<or> 300 \<le> StatusCode resp) \<longrightarrow>
      carries (snd (GET send s table query)) (StatusCode resp) (Body resp)) \<and>
   (send (Client s) \<lparr>Method = ''PATCH'',
       Url = URL s @ ''/rest/v1/'' @ table @ ''?id=eq.'' @ UUID_String id', Payload = Data data\<rparr> =
      Inr resp \<and> (StatusCode resp < 200 \<or> 300 \<le> StatusCode resp) \<longrightarrow>
      carries (snd (PATCH send s table id' data)) (StatusCode resp) (Body resp)) \<and>
   (send (Client s) \<lparr>Method = ''DELETE'', Url = URL s @ ''/rest/v1/'' @ table @ ''?'' @ conditions,
       Payload = NoBody\<rparr> = Inr resp \<and> (StatusCode resp < 200 \<or> 300 \<le> StatusCode resp) \<longrightarrow>
      carries (snd (DELETE send s table conditions)) (StatusCode resp) (Body resp)) \<and>
   (send (Client s) \<lparr>Method = ''POST'',
       Url = URL s @ ''/storage/v1/object/'' @ bucket @ ''/'' @ filename, Payload = Bytes image'\<rparr> =
      Inr resp \<and> 400 \<le> StatusCode resp \<longrightarrow>
      carries (snd (fst (UploadImage send s filename bucket image'))) (StatusCode resp) (Body resp)) \<and>
   (send (Client s) \<lparr>Method = ''POST'', Url = URL s @ ''/rest/v1/'' @ table @ ''?select=*'',
       Payload = Data data\<rparr> = Inr resp \<and> Body resp \<noteq> [] \<and> StatusCode resp \<noteq> 201 \<longrightarrow>
      snd (fst (POST send s table data)) = Some (Errorf (''supabase error: '' @ Body resp))) \<and>
   (send (Client s) \<lparr>Method = ''POST'', Url = URL s @ ''/auth/v1/signup'',
       Payload = Fields [(''email'', email), (''password'', password)]\<rparr> = Inr resp \<and>
      StatusCode resp \<noteq> 200 \<and> StatusCode resp \<noteq> 201 \<longrightarrow>
      snd (SignUp send unmarshal_userResp s email password) =
        Some (Errorf (''failed to sign up user: '' @ Body resp))) \<and>
   (send (Client s) \<lparr>Method = ''POST'', Url = URL s @ ''/auth/v1/token?grant_type=password'',
       Payload = Fields [(''email'', email), (''password'', password)]\<rparr> = Inr resp \<and>
      \<not> Contains (Body resp) ''error_code'' \<and> StatusCode resp \<noteq> 200 \<longrightarrow>
      snd (Login send unmarshal_error unmarshal_auth s email password) =
        Some (Errorf (''login_failed: '' @ Body resp))) \<and>
   (send (Client s) \<lparr>Method = ''PUT'', Url = URL s @ ''/auth/v1/admin/users/'' @ UUID_String id',
       Payload = Data data\<rparr> = Inr resp \<and> StatusCode resp \<noteq> 200 \<longrightarrow>
      snd (UpdateUser send unmarshal_User s id' data) =
        Some (Errorf (''update user failed: '' @ Body resp)))"
proof -
  have get: "send (Client s) \<lparr>Method = ''GET'', Url = URL s @ ''/rest/v1/'' @ table @ ''?'' @ query,
       Payload = NoBody\<rparr> = Inr resp \<and> (StatusCode resp < 200 \<or> 300 \<le> StatusCode resp) \<longrightarrow>
      carries (snd (GET send s table query)) (StatusCode resp) (Body resp)"
    using carries_Errorf [of "''supabase error: status ''" "StatusCode resp" "'' - ''" "Body resp"]
    by (auto simp add: GET_def Let_def)
  have patch: "send (Client s) \<lparr>Method = ''PATCH'',
       Url = URL s @ ''/rest/v1/'' @ table @ ''?id=eq.'' @ UUID_String id', Payload = Data data\<rparr> =
      Inr resp \<and> (StatusCode resp < 200 \<or> 300 \<le> StatusCode resp) \<longrightarrow>
      carries (snd (PATCH send s table id' data)) (StatusCode resp) (Body resp)"
    using carries_Errorf [of "''supabase PATCH error (''" "StatusCode resp" "''): ''" "Body resp"]
    by (auto simp add: PATCH_def Let_def)
  have delete: "send (Client s) \<lparr>Method = ''DELETE'',
       Url = URL s @ ''/rest/v1/'' @ table @ ''?'' @ conditions,
       Payload = NoBody\<rparr> = Inr resp \<and> (StatusCode resp < 200 \<or> 300 \<le> StatusCode resp) \<longrightarrow>
      carries (snd (DELETE send s table conditions)) (StatusCode resp) (Body resp)"
    using carries_Errorf [of "''DELETE operation failed (status ''" "StatusCode resp" "''): ''"
        "Body resp"]
    by (auto simp add: DELETE_def Let_def)
  have upload: "send (Client s) \<lparr>Method = ''POST'',
       Url = URL s @ ''/storage/v1/object/'' @ bucket @ ''/'' @ filename, Payload = Bytes image'\<rparr> =
      Inr resp \<and> 400 \<le> StatusCode resp \<longrightarrow>
      carries (snd (fst (UploadImage send s filename bucket image'))) (StatusCode resp) (Body resp)"
    using carries_Errorf [of "''supabase storage error (''" "StatusCode resp" "''): ''" "Body resp"]
    by (auto simp add: UploadImage_def Let_def)
  have post: "send (Client s) \<lparr>Method = ''POST'', Url = URL s @ ''/rest/v1/'' @ table @ ''?select=*'',
       Payload = Data data\<rparr> = Inr resp \<and> Body resp \<noteq> [] \<and> StatusCode resp \<noteq> 201 \<longrightarrow>
      snd (fst (POST send s table data)) = Some (Errorf (''supabase error: '' @ Body resp))"
    by (simp add: POST_def Let_def)
  have signup: "send (Client s) \<lparr>Method = ''POST'', Url = URL s @ ''/auth/v1/signup'',
       Payload = Fields [(''email'', email), (''password'', password)]\<rparr> = Inr resp \<and>
      StatusCode resp \<noteq> 200 \<and> StatusCode resp \<noteq> 201 \<longrightarrow>
      snd (SignUp send unmarshal_userResp s email password) =
        Some (Errorf (''failed to sign up user: '' @ Body resp))"
    by (simp add: SignUp_def Let_def)
  have login: "send (Client s) \<lparr>Method = ''POST'',
       Url = URL s @ ''/auth/v1/token?grant_type=password'',
       Payload = Fields [(''email'', email), (''password'', password)]\<rparr> = Inr resp \<and>
      \<not> Contains (Body resp) ''error_code'' \<and> StatusCode resp \<noteq> 200 \<longrightarrow>
      snd (Login send unmarshal_error unmarshal_auth s email password) =
        Some (Errorf (''login_failed: '' @ Body resp))"
    by (simp add: Login_def Let_def)
  have update: "send (Client s) \<lparr>Method = ''PUT'',
       Url = URL s @ ''/auth/v1/admin/users/'' @ UUID_String id',
       Payload = Data data\<rparr> = Inr resp \<and> StatusCode resp \<noteq> 200 \<longrightarrow>
      snd (UpdateUser send unmarshal_User s id' data) =
        Some (Errorf (''update user failed: '' @ Body resp))"
    by (simp add: UpdateUser_def Let_def)
  from get patch delete upload post signup login update show ?thesis by blast
qed

theorem status_errors_carry_witness:
  "carries (snd (GET (replies 404 ''missing'') client1 ''listings'' ''id=eq.1'')) 404 ''missing'' \<and>
   carries (snd (fst (UploadImage (replies 413 ''too large'') client1 ''photo.png'' ''images''
     ''bytes''))) 413 ''too large'' \<and>
   snd (fst (POST (replies 500 ''boom'') client1 ''listings'' ())) =
     Some (Errorf ''supabase error: boom'') \<and>
   snd (fst (POST (replies 400 ''boom'') client1 ''listings'' ())) =
     Some (Errorf ''supabase error: boom'') \<and>
   snd (UpdateUser (replies 403 ''forbidden'') rejects client1 7 ()) =
     Some (Errorf ''update user failed: forbidden'')"
proof -
  have get: "carries (snd (GET (replies 404 ''missing'') client1 ''listings'' ''id=eq.1'')) 404
      ''missing''"
    using status_errors_carry [where send = "replies 404 ''missing''" and s = client1
        and table = "''listings''" and query = "''id=eq.1''"
        and resp = "\<lparr>StatusCode = 404, Body = ''missing''\<rparr>",
        THEN conjunct1]
    by (simp add: replies_def)
  have upload: "carries (snd (fst (UploadImage (replies 413 ''too large'') client1 ''photo.png''
      ''images'' ''bytes''))) 413 ''too large''"
    using status_errors_carry [where send = "replies 413 ''too large''" and s = client1
        and filename = "''photo.png''" and bucket = "''images''" and image' = "''bytes''"
        and resp = "\<lparr>StatusCode = 413, Body = ''too large''\<rparr>",
        THEN conjunct2, THEN conjunct2, THEN conjunct2, THEN conjunct1]
    by (simp add: replies_def)
  have post500: "snd (fst (POST (replies 500 ''boom'') client1 ''listings'' ())) =
      Some (Errorf ''supabase error: boom'')"
    using status_errors_carry [where send = "replies 500 ''boom''" and s = client1
        and table = "''listings''" and data = "()"
        and resp = "\<lparr>StatusCode = 500, Body = ''boom''\<rparr>",
        THEN conjunct2, THEN conjunct2, THEN conjunct2, THEN conjunct2, THEN conjunct1]
    by (simp add: replies_def)
  have post400: "snd (fst (POST (replies 400 ''boom'') client1 ''listings'' ())) =
      Some (Errorf ''supabase error: boom'')"
    using status_errors_carry [where send = "replies 400 ''boom''" and s = client1
        and table = "''listings''" and data = "()"
        and resp = "\<lparr>StatusCode = 400, Body = ''boom''\<rparr>",
        THEN conjunct2, THEN conjunct2, THEN conjunct2, THEN conjunct2, THEN conjunct1]
    by (simp add: replies_def)
  have update: "snd (UpdateUser (replies 403 ''forbidden'') rejects client1 7 ()) =
      Some (Errorf ''update user failed: forbidden'')"
    using status_errors_carry [where send = "replies 403 ''forbidden''" and s = client1
        and id' = 7 and data = "()" and unmarshal_User = rejects
        and resp = "\<lparr>StatusCode = 403, Body = ''forbidden''\<rparr>",
        THEN conjunct2, THEN conjunct2, THEN conjunct2, THEN conjunct2, THEN conjunct2, THEN conjunct2, THEN conjunct2]
    by (simp add: replies_def)
  from get upload post500 post400 update show ?thesis by blast
qed

lemma not_Contains_500: "\<not> Contains ''supabase error: boom'' ''500''"
  "\<not> Contains ''update user failed: boom'' ''500''"
  by code_simp+

text \<open>The claim as stated has the status code in the errors of \<^verbatim>\<open>POST\<close> and
  \<^verbatim>\<open>UpdateUser\<close>.\<close>

theorem POST_error_without_status_counterexample:
  "snd (fst (POST (replies 500 ''boom'') client1 ''listings'' ())) =
     Some (Errorf ''supabase error: boom'') \<and>
   \<not> carries (snd (fst (POST (replies 500 ''boom'') client1 ''listings'' ()))) 500 ''boom'' \<and>
   snd (UpdateUser (replies 500 ''boom'') rejects client1 7 ()) =
     Some (Errorf ''update user failed: boom'') \<and>
   \<not> carries (snd (UpdateUser (replies 500 ''boom'') rejects client1 7 ())) 500 ''boom''"
  by (simp add: POST_def UpdateUser_def replies_def carries_def fmt_d_500 not_Contains_500
      del: Contains.simps)

text \<open>
  C10: whenever one of the eight operations returns an error that is not \<^verbatim>\<open>nil\<close>, the
  value it returns is \<^verbatim>\<open>nil\<close>, for every sender, decoder, input and response.
\<close>

theorem error_excludes_value:
  "(snd (GET send s table query) \<noteq> None \<longrightarrow> fst (GET send s table query) = None) \<and>
   (snd (fst (POST send s table data)) \<noteq> None \<longrightarrow> fst (fst (POST send s table data)) = None) \<and>
   (snd (PATCH send s table id' data) \<noteq> None \<longrightarrow> fst (PATCH send s table id' data) = None) \<and>
   (snd (DELETE send s table conditions) \<noteq> None \<longrightarrow>
      fst (DELETE send s table conditions) = None) \<and>
   (snd (fst (UploadImage send s filename bucket image')) \<noteq> None \<longrightarrow>
      fst (fst (UploadImage send s filename bucket image')) = None) \<and>
   (snd (SignUp send unmarshal_userResp s email password) \<noteq> None \<longrightarrow>
      fst (SignUp send unmarshal_userResp s email password) = None) \<and>
   (snd (Login send unmarshal_error unmarshal_auth s email password) \<noteq> None \<longrightarrow>
      fst (Login send unmarshal_error unmarshal_auth s email password) = None) \<and>
   (snd (UpdateUser send unmarshal_User s id' data) \<noteq> None \<longrightarrow>
      fst (UpdateUser send unmarshal_User s id' data) = None)"
proof -
  have 1: "snd (GET send s table query) \<noteq> None \<longrightarrow> fst (GET send s table query) = None"
    by (simp add: GET_def Let_def split: sum.splits)
  have 2: "snd (fst (POST send s table data)) \<noteq> None \<longrightarrow> fst (fst (POST send s table data)) = None"
    by (simp add: POST_def Let_def split: sum.splits)
  have 3: "snd (PATCH send s table id' data) \<noteq> None \<longrightarrow> fst (PATCH send s table id' data) = None"
    by (simp add: PATCH_def Let_def split: sum.splits)
  have 4: "snd (DELETE send s table conditions) \<noteq> None \<longrightarrow>
      fst (DELETE send s table conditions) = None"
    by (simp add: DELETE_def Let_def split: sum.splits)
  have 5: "snd (fst (UploadImage send s filename bucket image')) \<noteq> None \<longrightarrow>
      fst (fst (UploadImage send s filename bucket image')) = None"
    by (simp add: UploadImage_def Let_def split: sum.splits)
  have 6: "snd (SignUp send unmarshal_userResp s email password) \<noteq> None \<longrightarrow>
      fst (SignUp send unmarshal_userResp s email password) = None"
    by (simp add: SignUp_def Let_def split: sum.splits)
  have 7: "snd (Login send unmarshal_error unmarshal_auth s email password) \<noteq> None \<longrightarrow>
      fst (Login send unmarshal_error unmarshal_auth s email password) = None"
    by (simp add: Login_def Let_def split: sum.splits)
  have 8: "snd (UpdateUser send unmarshal_User s id' data) \<noteq> None \<longrightarrow>
      fst (UpdateUser send unmarshal_User s id' data) = None"
    by (simp add: UpdateUser_def Let_def split: sum.splits)
  from 1 2 3 4 5 6 7 8 show ?thesis by blast
qed

theorem error_excludes_value_witness:
  "fst (GET (replies 404 ''missing'') client1 ''listings'' ''id=eq.1'') = None \<and>
   fst (fst (POST unreachable client1 ''listings'' ())) = None \<and>
   fst (PATCH (replies 400 ''bad request'') client1 ''listings'' 7 ()) = None \<and>
   fst (DELETE unreachable client1 ''listings'' ''id=eq.1'') = None \<and>
   fst (fst (UploadImage (replies 413 ''too large'') client1 ''photo.png'' ''images'' ''bytes'')) =
     None \<and>
   fst (SignUp (replies 201 body_zero_id) json_Unmarshal_userResp client1 ''a@b.com'' ''secret'') =
     None \<and>
   fst (Login (replies 400 body_invalid_credentials) json_Unmarshal_errorResp
         (rejects :: unit unmarshal) client1 ''a@b.com'' ''secret'') = None \<and>
   fst (UpdateUser (replies 200 ''not json'') (rejects :: User unmarshal) client1 7 ()) = None"
proof -
  have get: "fst (GET (replies 404 ''missing'') client1 ''listings'' ''id=eq.1'') = None"
    using error_excludes_value [where send = "replies 404 ''missing''" and s = client1
        and table = "''listings''" and query = "''id=eq.1''",
        THEN conjunct1]
    by (simp add: Let_def GET_def replies_def)
  have post: "fst (fst (POST unreachable client1 ''listings'' ())) = None"
    using error_excludes_value [where send = unreachable and s = client1
        and table = "''listings''" and data = "()",
        THEN conjunct2, THEN conjunct1]
    by (simp add: Let_def POST_def unreachable_def)
  have patch: "fst (PATCH (replies 400 ''bad request'') client1 ''listings'' 7 ()) = None"
    using error_excludes_value [where send = "replies 400 ''bad request''" and s = client1
        and table = "''listings''" and id' = 7 and data = "()",
        THEN conjunct2, THEN conjunct2, THEN conjunct1]
    by (simp add: Let_def PATCH_def replies_def)
  have delete: "fst (DELETE unreachable client1 ''listings'' ''id=eq.1'') = None"
    using error_excludes_value [where send = unreachable and s = client1
        and table = "''listings''" and conditions = "''id=eq.1''",
        THEN conjunct2, THEN conjunct2, THEN conjunct2, THEN conjunct1]
    by (simp add: Let_def DELETE_def unreachable_def)
  have upload: "fst (fst (UploadImage (replies 413 ''too large'') client1 ''photo.png''
      ''images'' ''bytes'')) = None"
    using error_excludes_value [where send = "replies 413 ''too large''" and s = client1
        and filename = "''photo.png''" and bucket = "''images''" and image' = "''bytes''",
        THEN conjunct2, THEN conjunct2, THEN conjunct2, THEN conjunct2, THEN conjunct1]
    by (simp add: Let_def UploadImage_def replies_def)
  have signup: "fst (SignUp (replies 201 body_zero_id) json_Unmarshal_userResp client1
      ''a@b.com'' ''secret'') = None"
    using error_excludes_value [where send = "replies 201 body_zero_id" and s = client1
        and unmarshal_userResp = json_Unmarshal_userResp
        and email = "''a@b.com''" and password = "''secret''",
        THEN conjunct2, THEN conjunct2, THEN conjunct2, THEN conjunct2, THEN conjunct2, THEN conjunct1]
    by (simp add: Let_def SignUp_def replies_def decode_zero_id)
  have login: "fst (Login (replies 400 body_invalid_credentials) json_Unmarshal_errorResp
         (rejects :: unit unmarshal) client1 ''a@b.com'' ''secret'') = None"
    using error_excludes_value [where send = "replies 400 body_invalid_credentials"
        and s = client1 and unmarshal_error = json_Unmarshal_errorResp
        and unmarshal_auth = "rejects :: unit unmarshal"
        and email = "''a@b.com''" and password = "''secret''",
        THEN conjunct2, THEN conjunct2, THEN conjunct2, THEN conjunct2, THEN conjunct2, THEN conjunct2, THEN conjunct1]
    by (simp add: Let_def Login_def replies_def marker_in_bodies decode_invalid_credentials)
  have update: "fst (UpdateUser (replies 200 ''not json'') (rejects :: User unmarshal) client1 7 ())
      = None"
    using error_excludes_value [where send = "replies 200 ''not json''" and s = client1
        and unmarshal_User = "rejects :: User unmarshal" and id' = 7 and data = "()",
        THEN conjunct2, THEN conjunct2, THEN conjunct2, THEN conjunct2, THEN conjunct2, THEN conjunct2, THEN conjunct2]
    by (simp add: Let_def UpdateUser_def replies_def rejects_def)
  from get post patch delete upload signup login update show ?thesis by blast
qed

end
